theory Spec2Isabelle
  imports Complex_Main "HOL-Library.Multiset"
begin

section \<open>JavaScript values and the functions of the runtime\<close>

text \<open>
  A string is a list of characters. Equality, concatenation and the search for a
  substring are those of lists; what the runtime's own functions compute from a string
  or a number is not fixed here but taken from the runtime, see \<open>runtime\<close> below.

  A number is a finite value, given exactly as a rational (every finite IEEE double is
  one; the two zeros are one value), or one of \<open>Infinity\<close>, \<open>-Infinity\<close> and \<open>NaN\<close>.
\<close>

datatype number = Num rat | Infinity | NegInfinity | NaN

datatype json =
    JNull
  | JBool bool
  | JNum rat
  | JStr string
  | JArr "json list"
  | JObj "(string \<times> json) list"

datatype js_error = Error string | TypeError | SyntaxError

text \<open>
  The functions of the JavaScript runtime that the two entry points call and whose
  results depend on the Unicode tables, on IEEE arithmetic, on the locale or on the JSON
  grammar. Every definition below takes them from a \<open>runtime\<close>, and every property is
  proved for an arbitrary runtime; what a property needs of the runtime is among its
  hypotheses:
  \<^item> \<open>trim\<close> is \<open>String.prototype.trim\<close>, \<open>toUpperCase\<close> is \<open>String.prototype.toUpperCase\<close>;
  \<^item> \<open>product x y\<close> is the IEEE product \<open>x * y\<close> of two finite numbers, which may overflow;
  \<open>addition s x\<close> is the IEEE sum \<open>s + x\<close> of a number and a finite number;
  \<^item> \<open>numberToString\<close> is the text a template literal inserts for a number;
  \<^item> \<open>toLocaleString\<close> is \<open>Number.prototype.toLocaleString\<close> on a finite number;
  \<^item> \<open>JSON_parse\<close> is \<open>JSON.parse\<close>, \<open>None\<close> being its \<open>SyntaxError\<close>.
\<close>

record runtime =
  trim :: "string \<Rightarrow> string"
  toUpperCase :: "string \<Rightarrow> string"
  product :: "rat \<Rightarrow> rat \<Rightarrow> number"
  addition :: "number \<Rightarrow> rat \<Rightarrow> number"
  numberToString :: "number \<Rightarrow> string"
  toLocaleString :: "rat \<Rightarrow> string"
  JSON_parse :: "string \<Rightarrow> json option"

text \<open>
  \<open>Math.round\<close> gives the nearest integer, the upper one of two that are equally near, and
  leaves the values that are not finite as they are.
\<close>

definition Math_round :: "number \<Rightarrow> number" where
  "Math_round x = (case x of Num q \<Rightarrow> Num (of_int \<lfloor>q + 1 / 2\<rfloor>) | _ \<Rightarrow> x)"

text \<open>
  The length of an array is an integer below \<open>2^32\<close>; a template literal inserts it in
  plain decimal digits.
\<close>

definition digit_char :: "int \<Rightarrow> char" where
  "digit_char d = char_of (48 + d)"

function show_digits :: "int \<Rightarrow> string" where
  "show_digits n =
     (if n < 10 then [digit_char n] else show_digits (n div 10) @ [digit_char (n mod 10)])"
  by pat_completeness auto
termination
  by (relation "measure nat") auto

declare show_digits.simps [simp del]

definition show_nat :: "nat \<Rightarrow> string" where
  "show_nat n = show_digits (int n)"


section \<open>Data model (analyze-transactions/index.ts)\<close>

text \<open>
  The fields of a transaction have the types that the interface \<open>Transaction\<close> declares,
  strings and a finite number; on those, \<open>x ?? ""\<close> and \<open>Number(x) || 0\<close> give \<open>x\<close> back.
\<close>

record Transaction =
  tx_id :: string
  transaction_id :: string
  transaction_date :: string
  amount :: rat
  vendor_name :: string
  vendor_country :: string
  payment_method :: string
  department :: string
  description :: string

datatype severity = HIGH | MEDIUM

record RiskFactor =
  rf_type :: string
  rf_description :: string
  rf_severity :: severity

datatype risk_level = low | medium | high

record RiskResult =
  level :: risk_level
  factors :: "RiskFactor list"
  score :: nat
  why :: string

definition MEDIUM_RISK_COUNTRIES :: "string list" where
  "MEDIUM_RISK_COUNTRIES = [''PANAMA'', ''UAE'']"

text \<open>The rupee sign of the factor descriptions, as its three UTF-8 bytes.\<close>

definition rupee :: string where
  "rupee = [char_of (226::nat), char_of (130::nat), char_of (185::nat)]"


section \<open>Duplicate grouper\<close>

text \<open>
  A JavaScript \<open>Map\<close> iterates in insertion order, and \<open>isDuplicate\<close> depends on that
  order, so the groups are an association list: \<open>Map_set\<close> overwrites an existing key in
  place and appends a new key at the end.
\<close>

type_synonym groups = "(string \<times> string list) list"

fun Map_get :: "('k \<times> 'v) list \<Rightarrow> 'k \<Rightarrow> 'v option" where
  "Map_get [] k = None"
| "Map_get ((k', v) # m) k = (if k' = k then Some v else Map_get m k)"

fun Map_set :: "('k \<times> 'v) list \<Rightarrow> 'k \<Rightarrow> 'v \<Rightarrow> ('k \<times> 'v) list" where
  "Map_set [] k v = [(k, v)]"
| "Map_set ((k', v') # m) k v = (if k' = k then (k, v) # m else (k', v') # Map_set m k v)"

text \<open>\<open>(tx.vendor_name ?? "").trim().toUpperCase()\<close>\<close>

definition norm_vendor :: "runtime \<Rightarrow> Transaction \<Rightarrow> string" where
  "norm_vendor rt tx = toUpperCase rt (trim rt (vendor_name tx))"

text \<open>\<open>Math.round((Number(tx.amount) || 0) * 100)\<close>\<close>

definition cents :: "runtime \<Rightarrow> Transaction \<Rightarrow> number" where
  "cents rt tx = Math_round (product rt (amount tx) 100)"

definition group_key :: "runtime \<Rightarrow> Transaction \<Rightarrow> string" where
  "group_key rt tx =
     norm_vendor rt tx @ ''|'' @ transaction_date tx @ ''|'' @ numberToString rt (cents rt tx)"

text \<open>One iteration of the \<open>for (const tx of transactions)\<close> loop.\<close>

definition group_step :: "runtime \<Rightarrow> groups \<Rightarrow> Transaction \<Rightarrow> groups" where
  "group_step rt groups tx =
     (let vendor = norm_vendor rt tx in
      if vendor = [] then groups
      else
        let key = group_key rt tx;
            existing = (case Map_get groups key of None \<Rightarrow> [] | Some ids \<Rightarrow> ids)
        in Map_set groups key (existing @ [tx_id tx]))"

definition buildDuplicateGroups :: "runtime \<Rightarrow> Transaction list \<Rightarrow> groups" where
  "buildDuplicateGroups rt transactions = foldl (group_step rt) [] transactions"

fun isDuplicate :: "string \<Rightarrow> groups \<Rightarrow> bool \<times> nat" where
  "isDuplicate txId [] = (False, 0)"
| "isDuplicate txId ((k, ids) # rest) =
     (if txId \<in> set ids \<and> length ids > 1 then (True, length ids)
      else isDuplicate txId rest)"


section \<open>Rule evaluator\<close>

definition norm_country :: "runtime \<Rightarrow> Transaction \<Rightarrow> string" where
  "norm_country rt transaction =
     (let vendorCountry = toUpperCase rt (trim rt (vendor_country transaction)) in
      if vendorCountry = ''UNITED ARAB EMIRATES'' then ''UAE'' else vendorCountry)"

definition sameVendorSameDateCount :: "runtime \<Rightarrow> Transaction \<Rightarrow> Transaction list \<Rightarrow> nat" where
  "sameVendorSameDateCount rt transaction allTransactions =
     length (filter (\<lambda>t. norm_vendor rt t = norm_vendor rt transaction
                        \<and> transaction_date t = transaction_date transaction) allTransactions)"

definition duplicate_result :: "nat \<Rightarrow> RiskResult" where
  "duplicate_result cnt =
     \<lparr> level = high,
       factors = [\<lparr> rf_type = ''duplicate_transaction'',
                    rf_description = ''DUPLICATE TRANSACTION (Rule 1): Same vendor, amount, and date occurs ''
                                     @ show_nat cnt @ '' times'',
                    rf_severity = HIGH \<rparr>],
       score = 90,
       why = ''Rule 1 triggered: Duplicate transaction ('' @ show_nat cnt @ '' occurrences)'' \<rparr>"

definition high_value_result :: "runtime \<Rightarrow> rat \<Rightarrow> RiskResult" where
  "high_value_result rt a =
     \<lparr> level = high,
       factors = [\<lparr> rf_type = ''high_value_transaction'',
                    rf_description = ''HIGH-VALUE TRANSACTION (Rule 2): Amount '' @ rupee
                                     @ toLocaleString rt a @ '' exceeds '' @ rupee @ ''1,000,000'',
                    rf_severity = HIGH \<rparr>],
       score = 85,
       why = ''Rule 2 triggered: Amount > 1,000,000'' \<rparr>"

definition mid_value_result :: "runtime \<Rightarrow> rat \<Rightarrow> RiskResult" where
  "mid_value_result rt a =
     \<lparr> level = medium,
       factors = [\<lparr> rf_type = ''high_value_transaction'',
                    rf_description = ''HIGH-VALUE TRANSACTION (Rule 2): Amount '' @ rupee
                                     @ toLocaleString rt a @ '' is between '' @ rupee @ ''500,000 and ''
                                     @ rupee @ ''1,000,000'',
                    rf_severity = MEDIUM \<rparr>],
       score = 60,
       why = ''Rule 2 triggered: Amount between 500,000 and 1,000,000'' \<rparr>"

definition country_result :: "string \<Rightarrow> RiskResult" where
  "country_result vendorCountry =
     \<lparr> level = medium,
       factors = [\<lparr> rf_type = ''vendor_country_risk'',
                    rf_description = ''VENDOR COUNTRY RISK (Rule 3): Vendor country is '' @ vendorCountry,
                    rf_severity = MEDIUM \<rparr>],
       score = 50,
       why = ''Rule 3 triggered: Vendor country is '' @ vendorCountry \<rparr>"

definition frequency_result :: "nat \<Rightarrow> RiskResult" where
  "frequency_result n =
     \<lparr> level = medium,
       factors = [\<lparr> rf_type = ''frequency_risk'',
                    rf_description = ''FREQUENCY RISK (Rule 4): '' @ show_nat n
                                     @ '' payments to the same vendor on the same date'',
                    rf_severity = MEDIUM \<rparr>],
       score = 45,
       why = ''Rule 4 triggered: '' @ show_nat n @ '' payments to same vendor on same date'' \<rparr>"

definition low_result :: RiskResult where
  "low_result = \<lparr> level = low, factors = [], score = 0, why = ''No rule triggered'' \<rparr>"

definition analyzeTransaction ::
  "runtime \<Rightarrow> Transaction \<Rightarrow> Transaction list \<Rightarrow> groups \<Rightarrow> RiskResult" where
  "analyzeTransaction rt transaction allTransactions duplicateGroups =
     (let vendorName = norm_vendor rt transaction;
          a = amount transaction;
          vendorCountry = norm_country rt transaction;
          (isDup, cnt) = isDuplicate (tx_id transaction) duplicateGroups
      in
        if isDup then duplicate_result cnt
        else if a > 1000000 then high_value_result rt a
        else if a \<ge> 500000 \<and> a \<le> 1000000 then mid_value_result rt a
        else if vendorCountry \<noteq> [] \<and> vendorCountry \<in> set MEDIUM_RISK_COUNTRIES
          then country_result vendorCountry
        else if vendorName \<noteq> [] \<and> sameVendorSameDateCount rt transaction allTransactions > 1
          then frequency_result (sameVendorSameDateCount rt transaction allTransactions)
        else low_result)"

text \<open>The rule evaluator as the entry point runs it: groups built from the whole batch.\<close>

definition evaluate :: "runtime \<Rightarrow> Transaction list \<Rightarrow> Transaction \<Rightarrow> RiskResult" where
  "evaluate rt transactions tx =
     analyzeTransaction rt tx transactions (buildDuplicateGroups rt transactions)"


section \<open>Rate limiter\<close>

text \<open>
  Both entry points carry the same \<open>checkRateLimit\<close>, each with its own constants and its
  own store. \<open>Date.now()\<close> is an argument, in milliseconds; the store is returned updated.
  An entry of the store is an object, hence truthy: \<open>!userLimit\<close> holds exactly when the
  caller has no entry.
\<close>

record RateLimitEntry =
  rl_count :: nat
  resetTime :: int

type_synonym rateLimitStore = "string \<rightharpoonup> RateLimitEntry"

datatype rate_limit_result = Allowed | Denied int

definition Math_ceil :: "rat \<Rightarrow> int" where
  "Math_ceil x = \<lceil>x\<rceil>"

definition checkRateLimit_with ::
  "int \<Rightarrow> nat \<Rightarrow> int \<Rightarrow> rateLimitStore \<Rightarrow> string \<Rightarrow> rate_limit_result \<times> rateLimitStore" where
  "checkRateLimit_with window_ms max_requests now store userId =
     (case store userId of
        None \<Rightarrow> (Allowed, store(userId \<mapsto> \<lparr> rl_count = 1, resetTime = now + window_ms \<rparr>))
      | Some userLimit \<Rightarrow>
          if now \<ge> resetTime userLimit
            then (Allowed, store(userId \<mapsto> \<lparr> rl_count = 1, resetTime = now + window_ms \<rparr>))
          else if rl_count userLimit \<ge> max_requests
            then (Denied (Math_ceil (of_int (resetTime userLimit - now) / 1000)), store)
          else (Allowed, store(userId \<mapsto> userLimit\<lparr> rl_count := rl_count userLimit + 1 \<rparr>)))"

definition RATE_LIMIT_WINDOW_MS :: int where
  "RATE_LIMIT_WINDOW_MS = 60 * 60 * 1000"

definition MAX_REQUESTS_PER_WINDOW :: nat where
  "MAX_REQUESTS_PER_WINDOW = 10"

definition checkRateLimit :: "int \<Rightarrow> rateLimitStore \<Rightarrow> string \<Rightarrow> rate_limit_result \<times> rateLimitStore" where
  "checkRateLimit = checkRateLimit_with RATE_LIMIT_WINDOW_MS MAX_REQUESTS_PER_WINDOW"

text \<open>The copy in the report generator.\<close>

definition REPORT_RATE_LIMIT_WINDOW_MS :: int where
  "REPORT_RATE_LIMIT_WINDOW_MS = 24 * 60 * 60 * 1000"

definition MAX_REPORTS_PER_WINDOW :: nat where
  "MAX_REPORTS_PER_WINDOW = 20"

definition checkRateLimit_report ::
  "int \<Rightarrow> rateLimitStore \<Rightarrow> string \<Rightarrow> rate_limit_result \<times> rateLimitStore" where
  "checkRateLimit_report = checkRateLimit_with REPORT_RATE_LIMIT_WINDOW_MS MAX_REPORTS_PER_WINDOW"

text \<open>Successive requests of one caller, at the given times, against one store.\<close>

fun run_requests ::
  "(int \<Rightarrow> rateLimitStore \<Rightarrow> string \<Rightarrow> rate_limit_result \<times> rateLimitStore)
   \<Rightarrow> rateLimitStore \<Rightarrow> string \<Rightarrow> int list \<Rightarrow> rate_limit_result list \<times> rateLimitStore" where
  "run_requests chk store userId [] = ([], store)"
| "run_requests chk store userId (now # later) =
     (let (r, store') = chk now store userId;
          (rs, store'') = run_requests chk store' userId later
      in (r # rs, store''))"

declare run_requests.simps [simp del]

text \<open>
  What the fixed-window algorithm answers to the request number \<open>k\<close> (from 0) of a window
  opened at \<open>t0\<close>, arriving at \<open>now\<close>.
\<close>

definition window_answer :: "int \<Rightarrow> nat \<Rightarrow> int \<Rightarrow> nat \<Rightarrow> int \<Rightarrow> rate_limit_result" where
  "window_answer window_ms max_requests t0 k now =
     (if k < max_requests then Allowed
      else Denied (Math_ceil (of_int (t0 + window_ms - now) / 1000)))"


section \<open>The accesses the entry points make to JSON values\<close>

text \<open>
  A value that may be \<open>undefined\<close> is a \<open>json option\<close>. \<open>get_prop v name\<close> is \<open>v.name\<close> for a
  value other than \<open>null\<close>, for the property names read by the entry points (none of them
  is a property of a string, a number, a boolean or an array); \<open>index0 v\<close> is \<open>v[0]\<close>.
\<close>

definition get_prop :: "json \<Rightarrow> string \<Rightarrow> json option" where
  "get_prop v name = (case v of JObj kvs \<Rightarrow> map_of kvs name | _ \<Rightarrow> None)"

definition index0 :: "json \<Rightarrow> json option" where
  "index0 v =
     (case v of
        JArr xs \<Rightarrow> (case xs of [] \<Rightarrow> None | x # _ \<Rightarrow> Some x)
      | JStr s \<Rightarrow> (case s of [] \<Rightarrow> None | c # _ \<Rightarrow> Some (JStr [c]))
      | JObj kvs \<Rightarrow> map_of kvs ''0''
      | _ \<Rightarrow> None)"

definition nullish :: "json option \<Rightarrow> bool" where
  "nullish v \<longleftrightarrow> v = None \<or> v = Some JNull"

definition truthy :: "json option \<Rightarrow> bool" where
  "truthy v =
     (case v of
        None \<Rightarrow> False
      | Some JNull \<Rightarrow> False
      | Some (JBool b) \<Rightarrow> b
      | Some (JNum n) \<Rightarrow> n \<noteq> 0
      | Some (JStr s) \<Rightarrow> s \<noteq> []
      | Some _ \<Rightarrow> True)"

text \<open>\<open>data.choices?.[0]?.message?.content\<close>: reading \<open>choices\<close> of \<open>null\<close> throws.\<close>

definition ai_content :: "json \<Rightarrow> js_error + json option" where
  "ai_content aiData =
     (if aiData = JNull then Inl TypeError
      else if nullish (get_prop aiData ''choices'') then Inr None
      else if nullish (index0 (the (get_prop aiData ''choices''))) then Inr None
      else if nullish (get_prop (the (index0 (the (get_prop aiData ''choices'')))) ''message'') then Inr None
      else Inr (get_prop (the (get_prop (the (index0 (the (get_prop aiData ''choices'')))) ''message''))
                  ''content''))"

text \<open>
  \<open>s.replace(/```json\n?/g, '').replace(/```\n?/g, '').trim()\<close>: every occurrence of the
  fence, with the line feed after it if there is one, is removed from left to right.
\<close>

definition drop_lf :: "string \<Rightarrow> string" where
  "drop_lf s = (case s of [] \<Rightarrow> [] | c # cs \<Rightarrow> if c = CHR 0x0A then cs else c # cs)"

function remove_fence :: "string \<Rightarrow> string \<Rightarrow> string" where
  "remove_fence fence [] = []"
| "remove_fence fence (c # cs) =
     (if fence \<noteq> [] \<and> take (length fence) (c # cs) = fence
      then remove_fence fence (drop_lf (drop (length fence) (c # cs)))
      else c # remove_fence fence cs)"
  by pat_completeness auto
termination
proof (relation "measure (\<lambda>(fence, s). length s)")
  show "wf (measure (\<lambda>(fence, s). length s))" by simp
next
  fix fence :: string and c cs
  assume "fence \<noteq> [] \<and> take (length fence) (c # cs) = fence"
  then have "length (drop (length fence) (c # cs)) < length (c # cs)" by (cases fence) auto
  moreover have "length (drop_lf (drop (length fence) (c # cs)))
                   \<le> length (drop (length fence) (c # cs))"
    by (cases "drop (length fence) (c # cs)") (simp_all add: drop_lf_def)
  ultimately have "length (drop_lf (drop (length fence) (c # cs))) < length (c # cs)"
    by linarith
  then show "((fence, drop_lf (drop (length fence) (c # cs))), (fence, c # cs))
               \<in> measure (\<lambda>(fence, s). length s)"
    by simp
next
  fix fence :: string and c cs
  show "((fence, cs), (fence, c # cs)) \<in> measure (\<lambda>(fence, s). length s)" by simp
qed

declare remove_fence.simps [simp del]

definition cleanContent :: "runtime \<Rightarrow> string \<Rightarrow> string" where
  "cleanContent rt s = trim rt (remove_fence ''```'' (remove_fence ''```json'' s))"


section \<open>Entry point analyze-transactions, from the validation of the batch on\<close>

record Assessment =
  a_transaction_id :: string
  risk_score :: nat
  risk_level :: risk_level
  risk_factors :: "RiskFactor list"
  risk_reason :: string
  triggered_rules :: string
  audit_observation :: "json option"
  suggested_action :: "json option"

fun join :: "string \<Rightarrow> string list \<Rightarrow> string" where
  "join sep [] = []"
| "join sep [x] = x"
| "join sep (x # y # ys) = x @ sep @ join sep (y # ys)"

definition make_assessment :: "runtime \<Rightarrow> Transaction list \<Rightarrow> Transaction \<Rightarrow> Assessment" where
  "make_assessment rt transactions tx =
     (let r = analyzeTransaction rt tx transactions (buildDuplicateGroups rt transactions);
          joined = join '', '' (map rf_type (factors r))
      in \<lparr> a_transaction_id = tx_id tx,
           risk_score = score r,
           risk_level = level r,
           risk_factors = factors r,
           risk_reason = why r,
           triggered_rules = (if joined = [] then ''None'' else joined),
           audit_observation = None,
           suggested_action = None \<rparr>)"

text \<open>
  \<open>assessments.find(...)\<close> followed by \<open>Object.assign\<close> on what it found: the first
  assessment that satisfies the predicate is updated in place.
\<close>

fun assign_first :: "('a \<Rightarrow> bool) \<Rightarrow> ('a \<Rightarrow> 'a) \<Rightarrow> 'a list \<Rightarrow> 'a list" where
  "assign_first p f [] = []"
| "assign_first p f (a # as) = (if p a then f a # as else a # assign_first p f as)"

definition matches :: "json \<Rightarrow> Assessment \<Rightarrow> bool" where
  "matches explanation a \<longleftrightarrow> get_prop explanation ''transaction_id'' = Some (JStr (a_transaction_id a))"

definition assign_advisory :: "json \<Rightarrow> Assessment \<Rightarrow> Assessment" where
  "assign_advisory explanation a =
     a\<lparr> audit_observation := get_prop explanation ''audit_observation'',
        suggested_action := get_prop explanation ''suggested_action'' \<rparr>"

text \<open>
  The body of the merge loop throws a \<open>TypeError\<close> on a \<open>null\<close> entry; the \<open>catch\<close> around
  the loop logs it, and the assessments stay as merged so far.
\<close>

fun merge_loop :: "json list \<Rightarrow> Assessment list \<Rightarrow> Assessment list" where
  "merge_loop [] assessments = assessments"
| "merge_loop (explanation # rest) assessments =
     (if explanation = JNull then assessments
      else merge_loop rest (assign_first (matches explanation) (assign_advisory explanation) assessments))"

text \<open>
  The \<open>try\<close> block: a content that is not a string has no \<open>replace\<close>, a content that
  \<open>JSON.parse\<close> rejects throws, a parsed value that is not iterable throws, and the
  characters of a parsed string have no \<open>transaction_id\<close>; in each case the assessments
  are left as they are.
\<close>

definition merge_ai_content :: "runtime \<Rightarrow> json \<Rightarrow> Assessment list \<Rightarrow> Assessment list" where
  "merge_ai_content rt aiContent assessments =
     (case aiContent of
        JStr s \<Rightarrow>
          (case JSON_parse rt (cleanContent rt s) of
             Some (JArr aiExplanations) \<Rightarrow> merge_loop aiExplanations assessments
           | _ \<Rightarrow> assessments)
      | _ \<Rightarrow> assessments)"

text \<open>The answer of the narrative generator: \<open>fetch\<close> rejects, or resolves to a response.\<close>

record ai_response =
  status :: nat
  body_text :: string

definition ok :: "ai_response \<Rightarrow> bool" where
  "ok r \<longleftrightarrow> 200 \<le> status r \<and> status r \<le> 299"

datatype fetch_outcome = FetchFailed | Fetched ai_response

datatype analyze_response =
    AssessmentsResponse nat "Assessment list"
  | ErrorWithAssessments nat string "Assessment list"
  | AnalyzeError nat string

definition analyze_try ::
  "runtime \<Rightarrow> Transaction list \<Rightarrow> fetch_outcome \<Rightarrow> js_error + analyze_response" where
  "analyze_try rt transactions fetched =
     (if transactions = [] then Inl (Error ''No transactions provided'')
      else
        let assessments = map (make_assessment rt transactions) transactions;
            flaggedTransactions = filter (\<lambda>a. risk_level a \<noteq> low) assessments
        in
          if flaggedTransactions = [] then Inr (AssessmentsResponse 200 assessments)
          else
            (case fetched of
               FetchFailed \<Rightarrow> Inl TypeError
             | Fetched aiResponse \<Rightarrow>
                 if \<not> ok aiResponse then
                   (if status aiResponse = 429 then
                      Inr (ErrorWithAssessments 429
                             ''Rate limit exceeded. Please try again in a moment.'' assessments)
                    else if status aiResponse = 402 then
                      Inr (ErrorWithAssessments 402
                             ''AI credits exhausted. Please add credits to continue.'' assessments)
                    else Inr (AssessmentsResponse 200 assessments))
                 else
                   (case JSON_parse rt (body_text aiResponse) of
                      None \<Rightarrow> Inl SyntaxError
                    | Some aiData \<Rightarrow>
                        (case ai_content aiData of
                           Inl e \<Rightarrow> Inl e
                         | Inr aiContent \<Rightarrow>
                             Inr (AssessmentsResponse 200
                                    (if truthy aiContent
                                     then merge_ai_content rt (the aiContent) assessments
                                     else assessments))))))"

text \<open>
  \<open>String.prototype.includes\<close>, and the \<open>catch\<close> of an entry point: the message of an
  \<open>Error\<close> is passed on when it contains one of the safe messages. The messages of the
  runtime's own \<open>TypeError\<close> and \<open>SyntaxError\<close> contain none of them.
\<close>

fun str_includes :: "string \<Rightarrow> string \<Rightarrow> bool" where
  "str_includes [] msg = (msg = [])"
| "str_includes (c # cs) msg = (take (length msg) (c # cs) = msg \<or> str_includes cs msg)"

definition safeMessage :: "string list \<Rightarrow> string \<Rightarrow> js_error \<Rightarrow> string" where
  "safeMessage userSafeErrors generic e =
     (case e of
        Error message \<Rightarrow> if list_ex (str_includes message) userSafeErrors then message else generic
      | _ \<Rightarrow> generic)"

definition analyze_handler ::
  "runtime \<Rightarrow> Transaction list \<Rightarrow> fetch_outcome \<Rightarrow> analyze_response" where
  "analyze_handler rt transactions fetched =
     (case analyze_try rt transactions fetched of
        Inr response \<Rightarrow> response
      | Inl e \<Rightarrow>
          AnalyzeError 500
            (safeMessage [''No transactions provided''] ''Analysis failed. Please try again.'' e))"

text \<open>The fields of an assessment that the rule chain decides.\<close>

definition deterministic_part ::
  "Assessment \<Rightarrow> string \<times> nat \<times> risk_level \<times> RiskFactor list \<times> string \<times> string" where
  "deterministic_part a =
     (a_transaction_id a, risk_score a, risk_level a, risk_factors a, risk_reason a,
      triggered_rules a)"


section \<open>Entry point generate-report, from the request body on\<close>

text \<open>
  The tables the entry point reads and writes, and a count of the requests sent to the
  narrative generator. The prompt is built from the session's statistics; it decides
  nothing but the generator's answer, which is an input here. Failures of the store on
  the later queries are inputs as well.
\<close>

record Session =
  s_id :: string
  s_user_id :: string
  file_name :: string

record TransactionRow = Transaction +
  session_id :: string

record AssessmentRow =
  ra_transaction_id :: string
  ra_risk_level :: risk_level
  ra_risk_score :: nat

record Statistics =
  total_transactions :: nat
  high_risk :: nat
  medium_risk :: nat
  low_risk :: nat
  total_amount :: number

record AuditReport =
  ar_session_id :: string
  ar_user_id :: string
  title :: string
  executive_summary :: "json option"
  risk_posture :: "json option"
  key_risk_themes :: "json option"
  areas_of_attention :: "json option"
  statistics :: Statistics

record World =
  analysis_sessions :: "Session list"
  transactions :: "TransactionRow list"
  risk_assessments :: "AssessmentRow list"
  audit_reports :: "AuditReport list"
  narrative_calls :: nat

record Faults =
  tx_fetch_fails :: bool
  ra_fetch_fails :: bool
  insert_fails :: bool

datatype report_response = ReportResponse json | ReportError nat string

text \<open>
  \<open>.eq("id", sessionId).eq("user_id", userId).single()\<close>: the one row with this id that
  belongs to the caller; no row, or more than one, is an error.
\<close>

definition find_session :: "World \<Rightarrow> string \<Rightarrow> string \<Rightarrow> Session option" where
  "find_session w sessionId userId =
     (case filter (\<lambda>s. s_id s = sessionId \<and> s_user_id s = userId) (analysis_sessions w) of
        [session] \<Rightarrow> Some session
      | _ \<Rightarrow> None)"

definition session_statistics ::
  "runtime \<Rightarrow> TransactionRow list \<Rightarrow> AssessmentRow list \<Rightarrow> Statistics" where
  "session_statistics rt txs riskAssessments =
     \<lparr> total_transactions = length txs,
       high_risk = length (filter (\<lambda>ra. ra_risk_level ra = high) riskAssessments),
       medium_risk = length (filter (\<lambda>ra. ra_risk_level ra = medium) riskAssessments),
       low_risk = length (filter (\<lambda>ra. ra_risk_level ra = low) riskAssessments),
       total_amount = foldl (\<lambda>sum t. addition rt sum (amount t)) (Num 0) txs \<rparr>"

definition report_row :: "Session \<Rightarrow> string \<Rightarrow> json \<Rightarrow> Statistics \<Rightarrow> AuditReport" where
  "report_row session sessionId report stats =
     \<lparr> ar_session_id = sessionId,
       ar_user_id = s_user_id session,
       title = ''Audit Report - '' @ (if file_name session = [] then ''Unknown'' else file_name session),
       executive_summary = get_prop report ''executive_summary'',
       risk_posture = get_prop report ''risk_posture'',
       key_risk_themes = get_prop report ''key_risk_themes'',
       areas_of_attention = get_prop report ''areas_of_attention'',
       statistics = stats \<rparr>"

text \<open>From the answer of the narrative generator to the insertion of the report.\<close>

definition report_after_fetch ::
  "runtime \<Rightarrow> Faults \<Rightarrow> fetch_outcome \<Rightarrow> Session \<Rightarrow> string \<Rightarrow> Statistics
   \<Rightarrow> World \<Rightarrow> (js_error + report_response) \<times> World" where
  "report_after_fetch rt faults fetched session sessionId stats w =
     (case fetched of
        FetchFailed \<Rightarrow> (Inl TypeError, w)
      | Fetched response \<Rightarrow>
          if \<not> ok response then
            (if status response = 429 then
               (Inr (ReportError 429 ''Rate limit exceeded. Please try again in a moment.''), w)
             else if status response = 402 then
               (Inr (ReportError 402 ''AI credits exhausted. Please add credits to continue.''), w)
             else (Inl (Error ''Failed to generate report''), w))
          else
            (case JSON_parse rt (body_text response) of
               None \<Rightarrow> (Inl SyntaxError, w)
             | Some data \<Rightarrow>
                 (case ai_content data of
                    Inl e \<Rightarrow> (Inl e, w)
                  | Inr content \<Rightarrow>
                      if \<not> truthy content then (Inl (Error ''No content in AI response''), w)
                      else
                        (case the content of
                           JStr s \<Rightarrow>
                             (case JSON_parse rt (cleanContent rt s) of
                                None \<Rightarrow> (Inl SyntaxError, w)
                              | Some report \<Rightarrow>
                                  if report = JNull then (Inl TypeError, w)
                                  else if insert_fails faults
                                    then (Inl (Error ''Failed to save report''), w)
                                  else
                                    (Inr (ReportResponse report),
                                     w\<lparr> audit_reports :=
                                          audit_reports w
                                            @ [report_row session sessionId report stats] \<rparr>))
                         | _ \<Rightarrow> (Inl TypeError, w)))))"

definition generate_try ::
  "runtime \<Rightarrow> Faults \<Rightarrow> fetch_outcome \<Rightarrow> string \<Rightarrow> string \<Rightarrow> World
   \<Rightarrow> (js_error + report_response) \<times> World" where
  "generate_try rt faults fetched userId sessionId w =
     (if sessionId = [] then (Inl (Error ''Session ID is required''), w)
      else
        (case find_session w sessionId userId of
           None \<Rightarrow> (Inl (Error ''Session not found or access denied''), w)
         | Some session \<Rightarrow>
             if tx_fetch_fails faults then (Inl (Error ''Failed to fetch transactions''), w)
             else
               let txs = filter (\<lambda>t. session_id t = sessionId) (transactions w);
                   txIds = map tx_id txs
               in
                 if ra_fetch_fails faults
                   then (Inl (Error ''Failed to fetch risk assessments''), w)
                 else
                   let riskAssessments =
                         filter (\<lambda>ra. ra_transaction_id ra \<in> set txIds) (risk_assessments w)
                   in report_after_fetch rt faults fetched session sessionId
                        (session_statistics rt txs riskAssessments)
                        (w\<lparr> narrative_calls := narrative_calls w + 1 \<rparr>)))"

definition generate_handler ::
  "runtime \<Rightarrow> Faults \<Rightarrow> fetch_outcome \<Rightarrow> string \<Rightarrow> string \<Rightarrow> World
   \<Rightarrow> report_response \<times> World" where
  "generate_handler rt faults fetched userId sessionId w =
     (case generate_try rt faults fetched userId sessionId w of
        (Inr response, w') \<Rightarrow> (response, w')
      | (Inl e, w') \<Rightarrow>
          (ReportError 500
             (safeMessage [''Session ID is required'', ''Session not found or access denied'']
                ''Report generation failed. Please try again.'' e),
           w'))"


section \<open>Notions used to state the properties of the entry points\<close>

text \<open>The assessments a response of the analysis entry point carries, if any.\<close>

definition response_assessments :: "analyze_response \<Rightarrow> Assessment list option" where
  "response_assessments r =
     (case r of
        AssessmentsResponse st assessments \<Rightarrow> Some assessments
      | ErrorWithAssessments st msg assessments \<Rightarrow> Some assessments
      | AnalyzeError st msg \<Rightarrow> None)"


section \<open>Notions used to state the properties of the risk engine\<close>

text \<open>
  Two transactions are duplicates of each other when they agree on the normalized vendor
  name, the date and the amount in cents; the duplicate group of a transaction is the
  part of the batch that agrees with it on all three.
\<close>

definition same_triple :: "runtime \<Rightarrow> Transaction \<Rightarrow> Transaction \<Rightarrow> bool" where
  "same_triple rt u t \<longleftrightarrow>
     norm_vendor rt u = norm_vendor rt t \<and> transaction_date u = transaction_date t
     \<and> cents rt u = cents rt t"

definition duplicate_group :: "runtime \<Rightarrow> Transaction list \<Rightarrow> Transaction \<Rightarrow> Transaction list" where
  "duplicate_group rt batch t = filter (\<lambda>u. same_triple rt u t) batch"

text \<open>The ids that the grouper files under a key, and the size of a transaction's key group.\<close>

definition grouped :: "runtime \<Rightarrow> Transaction list \<Rightarrow> string \<Rightarrow> string list" where
  "grouped rt txs k = map tx_id (filter (\<lambda>u. norm_vendor rt u \<noteq> [] \<and> group_key rt u = k) txs)"

definition key_group_size :: "runtime \<Rightarrow> Transaction list \<Rightarrow> Transaction \<Rightarrow> nat" where
  "key_group_size rt txs t =
     length (filter (\<lambda>u. norm_vendor rt u \<noteq> [] \<and> group_key rt u = group_key rt t) txs)"

text \<open>Whether the vendor-country rule (rule 3) fires on a transaction.\<close>

definition country_rule_fires :: "runtime \<Rightarrow> Transaction \<Rightarrow> bool" where
  "country_rule_fires rt t \<longleftrightarrow>
     norm_country rt t \<noteq> [] \<and> norm_country rt t \<in> set MEDIUM_RISK_COUNTRIES"


section \<open>A runtime for the examples, and sample data\<close>

text \<open>
  The examples below are evaluated with the runtime \<open>sample_rt\<close>. Its functions are those
  of JavaScript on the arguments they meet in the sample data and on no more than those:
  \<^item> \<open>ascii_trim\<close> and \<open>ascii_toUpperCase\<close> are \<open>trim\<close> and \<open>toUpperCase\<close> on strings of ASCII
  characters (white space is TAB, LF, VT, FF, CR and SPACE; \<open>a..z\<close> go to \<open>A..Z\<close>);
  \<^item> \<open>exact_product\<close> and \<open>exact_addition\<close> are the IEEE operations where the exact result
  is a double, as it is for the sample amounts, whose fractions are a few binary digits;
  \<^item> \<open>decimal\<close> is the text of a number that is an integer below \<open>10^21\<close> in absolute
  value, as the amounts in cents of the sample data are, or that is not finite;
  \<^item> \<open>plain_locale\<close> takes the place of \<open>toLocaleString\<close>, whose text depends on the locale
  of the server; no example states a text that holds a formatted amount;
  \<^item> \<open>sample_parse\<close> takes the place of \<open>JSON.parse\<close> on the texts named in its definition.

  The theorems are proved for every runtime; \<open>sample_rt\<close> serves the examples and the
  counterexamples only.
\<close>

definition is_ws :: "char \<Rightarrow> bool" where
  "is_ws c = (let n = (of_char c :: nat) in (9 \<le> n \<and> n \<le> 13) \<or> n = 32)"

definition ascii_trim :: "string \<Rightarrow> string" where
  "ascii_trim s = rev (dropWhile is_ws (rev (dropWhile is_ws s)))"

definition upper_char :: "char \<Rightarrow> char" where
  "upper_char c = (let n = (of_char c :: nat) in
     if 97 \<le> n \<and> n \<le> 122 then char_of (n - 32) else c)"

definition ascii_toUpperCase :: "string \<Rightarrow> string" where
  "ascii_toUpperCase s = map upper_char s"

definition exact_product :: "rat \<Rightarrow> rat \<Rightarrow> number" where
  "exact_product x y = Num (x * y)"

definition exact_addition :: "number \<Rightarrow> rat \<Rightarrow> number" where
  "exact_addition s x = (case s of Num q \<Rightarrow> Num (q + x) | _ \<Rightarrow> s)"

definition show_int :: "int \<Rightarrow> string" where
  "show_int i = (if i < 0 then CHR ''-'' # show_digits (- i) else show_digits i)"

definition decimal :: "number \<Rightarrow> string" where
  "decimal x =
     (case x of
        Num q \<Rightarrow> show_int \<lfloor>q\<rfloor>
      | Infinity \<Rightarrow> ''Infinity''
      | NegInfinity \<Rightarrow> ''-Infinity''
      | NaN \<Rightarrow> ''NaN'')"

definition plain_locale :: "rat \<Rightarrow> string" where
  "plain_locale a = show_int \<lfloor>a\<rfloor>"

definition mk_tx :: "string \<Rightarrow> string \<Rightarrow> string \<Rightarrow> rat \<Rightarrow> string \<Rightarrow> Transaction" where
  "mk_tx i v d a c =
     \<lparr> tx_id = i, transaction_id = ''TXN-'' @ i, transaction_date = d, amount = a,
       vendor_name = v, vendor_country = c, payment_method = ''WIRE'',
       department = ''Finance'', description = [] \<rparr>"

text \<open>
  Two duplicates that are also high-value, one of them from a listed country. Their
  amounts, 2,000,000.0078125 and 2,000,000.01171875, differ and are both 200,000,001
  cents; the third payment to the same vendor on the same day, of 2,000,000.00390625, is
  200,000,000 cents and no duplicate of them.
\<close>

definition dup_a :: Transaction where
  "dup_a = mk_tx ''a1'' '' Acme Ltd '' ''2024-03-01'' (2000000 + 1 / 128) ''Panama''"

definition dup_b :: Transaction where
  "dup_b = mk_tx ''a2'' ''ACME LTD'' ''2024-03-01'' (2000000 + 3 / 256) ''India''"

definition dup_c :: Transaction where
  "dup_c = mk_tx ''a3'' ''Acme Ltd'' ''2024-03-01'' (2000000 + 1 / 256) ''India''"

text \<open>Amounts on and next to the two thresholds of the high-value rule.\<close>

definition val_1000000 :: Transaction where
  "val_1000000 = mk_tx ''b1'' ''Globex'' ''2024-03-02'' 1000000 ''India''"

definition val_above_1000000 :: Transaction where
  "val_above_1000000 = mk_tx ''b2'' ''Initech'' ''2024-03-03'' (1000000 + 1 / 128) ''India''"

definition val_500000 :: Transaction where
  "val_500000 = mk_tx ''b3'' ''Umbrella'' ''2024-03-04'' 500000 ''India''"

definition val_499999 :: Transaction where
  "val_499999 = mk_tx ''b4'' ''Hooli'' ''2024-03-05'' 499999 ''India''"

definition threshold_batch :: "Transaction list" where
  "threshold_batch = [val_1000000, val_above_1000000, val_500000, val_499999]"

text \<open>Two payments to one vendor on one day, of 10.25 and of 10.50.\<close>

definition freq_a :: Transaction where
  "freq_a = mk_tx ''c1'' ''Stark'' ''2024-03-06'' (41 / 4) ''India''"

definition freq_b :: Transaction where
  "freq_b = mk_tx ''c2'' ''stark '' ''2024-03-06'' (21 / 2) ''India''"

text \<open>Two payments without a vendor name on one day, different amounts.\<close>

definition blank_a :: Transaction where
  "blank_a = mk_tx ''d1'' [] ''2024-03-07'' 100 ''India''"

definition blank_b :: Transaction where
  "blank_b = mk_tx ''d2'' ''   '' ''2024-03-07'' 250 ''India''"

text \<open>
  \<open>sample_parse\<close> knows three names of JSON texts and one JSON text: \<open>ENVELOPE\<close> names a
  completion envelope whose message content is a fenced list, \<open>LIST\<close> that list (one entry
  for the transaction \<open>c1\<close>, one for an unknown id), \<open>EMPTY\<close> an envelope without choices;
  \<open>null\<close> is the text of \<open>null\<close>. It rejects every other text, among them the page of a
  gateway that is no JSON text.
\<close>

definition sample_list :: json where
  "sample_list =
     JArr [JObj [(''transaction_id'', JStr ''c1''),
                 (''audit_observation'', JStr ''Two payments to Stark on 2024-03-06.''),
                 (''risk_reason'', JStr ''Advisory elaboration.''),
                 (''suggested_action'', JStr ''Request the supporting invoices.'')],
           JObj [(''transaction_id'', JStr ''zz''),
                 (''audit_observation'', JStr ''Unknown transaction.''),
                 (''suggested_action'', JStr ''None.'')]]"

definition sample_envelope :: json where
  "sample_envelope =
     JObj [(''choices'',
            JArr [JObj [(''message'',
                         JObj [(''content'',
                                JStr (''```json'' @ [CHR 0x0A] @ ''LIST'' @ [CHR 0x0A] @ ''```''))])]])]"

definition sample_parse :: "string \<Rightarrow> json option" where
  "sample_parse s =
     (if s = ''ENVELOPE'' then Some sample_envelope
      else if s = ''LIST'' then Some sample_list
      else if s = ''EMPTY'' then Some (JObj [(''choices'', JArr [])])
      else if s = ''null'' then Some JNull
      else None)"

definition sample_rt :: runtime where
  "sample_rt =
     \<lparr> trim = ascii_trim,
       toUpperCase = ascii_toUpperCase,
       product = exact_product,
       addition = exact_addition,
       numberToString = decimal,
       toLocaleString = plain_locale,
       JSON_parse = sample_parse \<rparr>"

definition response_200 :: ai_response where
  "response_200 = \<lparr> status = 200, body_text = ''ENVELOPE'' \<rparr>"

definition response_503 :: ai_response where
  "response_503 = \<lparr> status = 503, body_text = ''unavailable'' \<rparr>"

text \<open>A success status with the error page of a gateway as its body.\<close>

definition response_200_page :: ai_response where
  "response_200_page = \<lparr> status = 200, body_text = ''<html><body>Bad Gateway</body></html>'' \<rparr>"

text \<open>A success status with the body \<open>null\<close>.\<close>

definition response_200_null :: ai_response where
  "response_200_null = \<lparr> status = 200, body_text = ''null'' \<rparr>"

text \<open>A store with one session of the caller \<open>alice\<close>, its transactions, and no report.\<close>

definition sample_world :: World where
  "sample_world =
     \<lparr> analysis_sessions = [\<lparr> s_id = ''s1'', s_user_id = ''alice'', file_name = ''march.csv'' \<rparr>],
       transactions = [Transaction.extend freq_a \<lparr> session_id = ''s1'' \<rparr>,
                       Transaction.extend freq_b \<lparr> session_id = ''s1'' \<rparr>],
       risk_assessments = [\<lparr> ra_transaction_id = ''c1'', ra_risk_level = medium, ra_risk_score = 45 \<rparr>,
                           \<lparr> ra_transaction_id = ''c2'', ra_risk_level = medium, ra_risk_score = 45 \<rparr>],
       audit_reports = [],
       narrative_calls = 0 \<rparr>"

definition no_faults :: Faults where
  "no_faults = \<lparr> tx_fetch_fails = False, ra_fetch_fails = False, insert_fails = False \<rparr>"


section \<open>Facts about the grouper and the rule chain\<close>

subsection \<open>Splitting a key at its separators\<close>

lemma split_at_last:
  "c \<notin> set ys \<Longrightarrow> c \<notin> set ys' \<Longrightarrow> xs @ c # ys = xs' @ c # ys' \<Longrightarrow> xs = xs' \<and> ys = ys'"
proof (induction xs arbitrary: xs')
  case Nil
  then show ?case by (cases xs') auto
next
  case (Cons a as)
  show ?case
  proof (cases xs')
    case Nil
    with Cons.prems show ?thesis by auto
  next
    case (Cons b bs)
    with Cons.prems Cons.IH [of bs] show ?thesis by simp
  qed
qed

lemma group_key_inj:
  assumes "CHR ''|'' \<notin> set (transaction_date u)" "CHR ''|'' \<notin> set (transaction_date t)"
    and nb: "CHR ''|'' \<notin> set (numberToString rt (cents rt u))"
            "CHR ''|'' \<notin> set (numberToString rt (cents rt t))"
    and inj: "numberToString rt (cents rt u) = numberToString rt (cents rt t)
              \<Longrightarrow> cents rt u = cents rt t"
  shows "group_key rt u = group_key rt t \<longleftrightarrow> same_triple rt u t"
proof
  assume eq: "group_key rt u = group_key rt t"
  then have "(norm_vendor rt u @ CHR ''|'' # transaction_date u)
               @ CHR ''|'' # numberToString rt (cents rt u)
           = (norm_vendor rt t @ CHR ''|'' # transaction_date t)
               @ CHR ''|'' # numberToString rt (cents rt t)"
    by (simp add: group_key_def)
  from split_at_last [OF nb this]
  have a: "norm_vendor rt u @ CHR ''|'' # transaction_date u
         = norm_vendor rt t @ CHR ''|'' # transaction_date t"
    and b: "numberToString rt (cents rt u) = numberToString rt (cents rt t)" by simp_all
  from split_at_last [OF assms(1,2) a] inj [OF b]
  show "same_triple rt u t" unfolding same_triple_def by blast
next
  assume "same_triple rt u t"
  then show "group_key rt u = group_key rt t" by (simp add: group_key_def same_triple_def)
qed

subsection \<open>The insertion-ordered map\<close>

lemma Map_get_Map_set: "Map_get (Map_set m k v) k' = (if k' = k then Some v else Map_get m k')"
  by (induction m) auto

lemma Map_set_keys:
  "map fst (Map_set m k v) = (if k \<in> set (map fst m) then map fst m else map fst m @ [k])"
  by (induction m) (auto simp: rev_image_eqI)

lemma distinct_Map_set: "distinct (map fst m) \<Longrightarrow> distinct (map fst (Map_set m k v))"
  by (simp add: Map_set_keys)

lemma Map_get_map_of: "Map_get m k = map_of m k"
  by (induction m) auto

lemma Map_get_iff: "distinct (map fst m) \<Longrightarrow> Map_get m k = Some v \<longleftrightarrow> (k, v) \<in> set m"
  by (simp add: Map_get_map_of)

subsection \<open>What the grouper builds\<close>

lemma buildDuplicateGroups_snoc:
  "buildDuplicateGroups rt (txs @ [t]) = group_step rt (buildDuplicateGroups rt txs) t"
  by (simp add: buildDuplicateGroups_def)

lemma distinct_buildDuplicateGroups: "distinct (map fst (buildDuplicateGroups rt txs))"
proof (induction txs rule: rev_induct)
  case Nil
  show ?case by (simp add: buildDuplicateGroups_def)
next
  case (snoc t txs)
  then show ?case
    by (simp add: buildDuplicateGroups_snoc group_step_def Let_def distinct_Map_set)
qed

lemma Map_get_buildDuplicateGroups:
  "Map_get (buildDuplicateGroups rt txs) k = (if grouped rt txs k = [] then None else Some (grouped rt txs k))"
proof (induction txs rule: rev_induct)
  case Nil
  show ?case by (simp add: buildDuplicateGroups_def grouped_def)
next
  case (snoc t txs)
  show ?case
  proof (cases "norm_vendor rt t = []")
    case True
    then show ?thesis using snoc
      by (simp add: buildDuplicateGroups_snoc group_step_def grouped_def)
  next
    case False
    then show ?thesis using snoc
      by (auto simp: buildDuplicateGroups_snoc group_step_def Let_def grouped_def Map_get_Map_set)
  qed
qed

lemma buildDuplicateGroups_entry:
  "(k, ids) \<in> set (buildDuplicateGroups rt txs) \<longleftrightarrow> ids = grouped rt txs k \<and> ids \<noteq> []"
  using Map_get_iff [OF distinct_buildDuplicateGroups, of rt txs k ids]
  by (auto simp: Map_get_buildDuplicateGroups split: if_splits)

subsection \<open>What the scan of the groups returns\<close>

lemma isDuplicate_none:
  "\<forall>(k, ids) \<in> set g. i \<notin> set ids \<Longrightarrow> isDuplicate i g = (False, 0)"
  by (induction g) auto

lemma isDuplicate_uniform:
  "\<forall>(k, ids) \<in> set g. i \<in> set ids \<longrightarrow> length ids = n \<Longrightarrow>
   \<exists>(k, ids) \<in> set g. i \<in> set ids \<Longrightarrow>
   isDuplicate i g = (if n > 1 then (True, n) else (False, 0))"
proof (induction g)
  case Nil
  then show ?case by simp
next
  case (Cons e g)
  obtain k ids where e: "e = (k, ids)" by (cases e)
  show ?case
  proof (cases "i \<in> set ids")
    case True
    then have len: "length ids = n" using Cons.prems(1) e by auto
    show ?thesis
    proof (cases "n > 1")
      case True
      then show ?thesis using \<open>i \<in> set ids\<close> len e by simp
    next
      case False
      have "isDuplicate i g = (False, 0)"
      proof (cases "\<exists>(k, ids) \<in> set g. i \<in> set ids")
        case True
        then show ?thesis using Cons.IH Cons.prems(1) False by auto
      next
        case False
        then show ?thesis by (intro isDuplicate_none) auto
      qed
      then show ?thesis using False len e by simp
    qed
  next
    case False
    then have "\<exists>(k, ids) \<in> set g. i \<in> set ids" using Cons.prems(2) e by auto
    then show ?thesis using Cons.IH Cons.prems(1) False e by auto
  qed
qed

lemma isDuplicate_buildDuplicateGroups:
  assumes d: "distinct (map tx_id txs)" and t: "t \<in> set txs"
  shows "isDuplicate (tx_id t) (buildDuplicateGroups rt txs) =
           (if norm_vendor rt t \<noteq> [] \<and> key_group_size rt txs t > 1
            then (True, key_group_size rt txs t) else (False, 0))"
proof -
  have inj: "\<And>u. u \<in> set txs \<Longrightarrow> tx_id u = tx_id t \<Longrightarrow> u = t"
    using d t by (meson distinct_map inj_onD)
  have only: "\<And>k ids. (k, ids) \<in> set (buildDuplicateGroups rt txs) \<Longrightarrow> tx_id t \<in> set ids
                \<Longrightarrow> norm_vendor rt t \<noteq> [] \<and> k = group_key rt t \<and> length ids = key_group_size rt txs t"
  proof -
    fix k ids assume e: "(k, ids) \<in> set (buildDuplicateGroups rt txs)" and m: "tx_id t \<in> set ids"
    from e have ids: "ids = grouped rt txs k" by (simp add: buildDuplicateGroups_entry)
    with m obtain u where "u \<in> set txs" "norm_vendor rt u \<noteq> []" "group_key rt u = k" "tx_id u = tx_id t"
      by (auto simp: grouped_def)
    with inj have "norm_vendor rt t \<noteq> []" "k = group_key rt t" by auto
    with ids show "norm_vendor rt t \<noteq> [] \<and> k = group_key rt t \<and> length ids = key_group_size rt txs t"
      by (simp add: grouped_def key_group_size_def)
  qed
  show ?thesis
  proof (cases "norm_vendor rt t = []")
    case True
    have "isDuplicate (tx_id t) (buildDuplicateGroups rt txs) = (False, 0)"
      by (rule isDuplicate_none) (use only True in auto)
    then show ?thesis using True by simp
  next
    case False
    have mem: "tx_id t \<in> set (grouped rt txs (group_key rt t))"
      using t False by (auto simp: grouped_def)
    then have "(group_key rt t, grouped rt txs (group_key rt t)) \<in> set (buildDuplicateGroups rt txs)"
      by (auto simp: buildDuplicateGroups_entry)
    with mem have ex: "\<exists>(k, ids) \<in> set (buildDuplicateGroups rt txs). tx_id t \<in> set ids" by blast
    have "\<forall>(k, ids) \<in> set (buildDuplicateGroups rt txs).
            tx_id t \<in> set ids \<longrightarrow> length ids = key_group_size rt txs t"
      using only by blast
    from isDuplicate_uniform [OF this ex] False show ?thesis by simp
  qed
qed

subsection \<open>The rule chain, branch by branch\<close>

lemma analyzeTransaction_cases:
  "analyzeTransaction rt tx allTx g \<in>
     {duplicate_result (snd (isDuplicate (tx_id tx) g)),
      high_value_result rt (amount tx), mid_value_result rt (amount tx),
      country_result (norm_country rt tx),
      frequency_result (sameVendorSameDateCount rt tx allTx), low_result}"
  by (simp add: analyzeTransaction_def Let_def split: prod.split)

lemma analyzeTransaction_dup:
  "isDuplicate (tx_id tx) g = (True, n) \<Longrightarrow> analyzeTransaction rt tx allTx g = duplicate_result n"
  by (simp add: analyzeTransaction_def Let_def)

lemma analyzeTransaction_not_dup:
  "\<not> fst (isDuplicate (tx_id tx) g) \<Longrightarrow>
   analyzeTransaction rt tx allTx g =
     (if amount tx > 1000000 then high_value_result rt (amount tx)
      else if amount tx \<ge> 500000 \<and> amount tx \<le> 1000000 then mid_value_result rt (amount tx)
      else if country_rule_fires rt tx then country_result (norm_country rt tx)
      else if norm_vendor rt tx \<noteq> [] \<and> sameVendorSameDateCount rt tx allTx > 1
        then frequency_result (sameVendorSameDateCount rt tx allTx)
      else low_result)"
  by (cases "isDuplicate (tx_id tx) g")
     (simp add: analyzeTransaction_def Let_def country_rule_fires_def)

lemma result_fields:
  "level (duplicate_result n) = high" "score (duplicate_result n) = 90"
  "length (factors (duplicate_result n)) = 1" "factors (duplicate_result n) \<noteq> []"
  "level (high_value_result rt a) = high" "score (high_value_result rt a) = 85"
  "length (factors (high_value_result rt a)) = 1" "factors (high_value_result rt a) \<noteq> []"
  "level (mid_value_result rt a) = medium" "score (mid_value_result rt a) = 60"
  "length (factors (mid_value_result rt a)) = 1" "factors (mid_value_result rt a) \<noteq> []"
  "level (country_result c) = medium" "score (country_result c) = 50"
  "length (factors (country_result c)) = 1" "factors (country_result c) \<noteq> []"
  "level (frequency_result n) = medium" "score (frequency_result n) = 45"
  "length (factors (frequency_result n)) = 1" "factors (frequency_result n) \<noteq> []"
  "level low_result = low" "score low_result = 0" "factors low_result = []"
  by (simp_all add: duplicate_result_def high_value_result_def mid_value_result_def
      country_result_def frequency_result_def low_result_def)

lemma length_filter_mset: "length (filter P xs) = size (filter_mset P (mset xs))"
  by (metis mset_filter size_mset)


section \<open>Properties of the duplicate rule and the rule chain\<close>

text \<open>
  C1. Take any runtime and any batch of transactions with pairwise distinct ids and
  calendar dates (no date contains the key separator), such that the texts the runtime
  writes for the amounts in cents of the batch contain no separator and differ when the
  amounts in cents differ (JavaScript writes a number with digits, a sign, a point and
  an exponent, or as \<open>Infinity\<close> or \<open>NaN\<close>, and writes different numbers differently).
  Every transaction whose non-blank normalized vendor name, date and amount in cents
  are shared with at least one other transaction of the batch is classified by the
  duplicate rule alone: tier HIGH, score 90, exactly one factor of type
  duplicate_transaction, and the occurrence count written into the reason and into the
  factor is the size of its duplicate group, which is at least two. Nothing is assumed
  about the amount or the vendor country.
\<close>

theorem duplicate_rule_first:
  assumes ids: "distinct (map tx_id batch)"
    and dates: "\<forall>u \<in> set batch. CHR ''|'' \<notin> set (transaction_date u)"
    and digits: "\<forall>u \<in> set batch. CHR ''|'' \<notin> set (numberToString rt (cents rt u))"
    and texts: "\<forall>u \<in> set batch. \<forall>v \<in> set batch.
                  numberToString rt (cents rt u) = numberToString rt (cents rt v)
                  \<longrightarrow> cents rt u = cents rt v"
    and t: "t \<in> set batch"
    and vendor: "norm_vendor rt t \<noteq> []"
    and other: "\<exists>u \<in> set batch. tx_id u \<noteq> tx_id t \<and> same_triple rt u t"
  shows "level (evaluate rt batch t) = high
       \<and> score (evaluate rt batch t) = 90
       \<and> factors (evaluate rt batch t) =
           [\<lparr> rf_type = ''duplicate_transaction'',
              rf_description = ''DUPLICATE TRANSACTION (Rule 1): Same vendor, amount, and date occurs ''
                               @ show_nat (length (duplicate_group rt batch t)) @ '' times'',
              rf_severity = HIGH \<rparr>]
       \<and> why (evaluate rt batch t) =
           ''Rule 1 triggered: Duplicate transaction (''
             @ show_nat (length (duplicate_group rt batch t)) @ '' occurrences)''
       \<and> 2 \<le> length (duplicate_group rt batch t)"
proof -
  have "filter (\<lambda>u. norm_vendor rt u \<noteq> [] \<and> group_key rt u = group_key rt t) batch
      = filter (\<lambda>u. same_triple rt u t) batch"
  proof (rule filter_cong [OF refl])
    fix u assume u: "u \<in> set batch"
    have "group_key rt u = group_key rt t \<longleftrightarrow> same_triple rt u t"
    proof (rule group_key_inj)
      show "CHR ''|'' \<notin> set (transaction_date u)" using dates u by blast
      show "CHR ''|'' \<notin> set (transaction_date t)" using dates t by blast
      show "CHR ''|'' \<notin> set (numberToString rt (cents rt u))" using digits u by blast
      show "CHR ''|'' \<notin> set (numberToString rt (cents rt t))" using digits t by blast
      show "cents rt u = cents rt t"
        if "numberToString rt (cents rt u) = numberToString rt (cents rt t)"
        using texts u t that by blast
    qed
    with vendor show "(norm_vendor rt u \<noteq> [] \<and> group_key rt u = group_key rt t) = same_triple rt u t"
      by (auto simp: same_triple_def)
  qed
  then have size: "key_group_size rt batch t = length (duplicate_group rt batch t)"
    by (simp add: key_group_size_def duplicate_group_def)
  from other obtain u where u: "u \<in> set batch" "tx_id u \<noteq> tx_id t" "same_triple rt u t" by blast
  have "distinct (duplicate_group rt batch t)"
    using ids by (simp add: duplicate_group_def distinct_map)
  moreover have "{t, u} \<subseteq> set (duplicate_group rt batch t)"
    using t u by (auto simp: duplicate_group_def same_triple_def)
  moreover have "t \<noteq> u" using u(2) by auto
  then have "card {t, u} = 2" by simp
  ultimately have two: "2 \<le> length (duplicate_group rt batch t)"
    by (metis card_mono distinct_card finite_set)
  with size vendor isDuplicate_buildDuplicateGroups [OF ids t, of rt]
  have "isDuplicate (tx_id t) (buildDuplicateGroups rt batch)
          = (True, length (duplicate_group rt batch t))"
    by simp
  then have "evaluate rt batch t = duplicate_result (length (duplicate_group rt batch t))"
    unfolding evaluate_def by (rule analyzeTransaction_dup)
  with two show ?thesis by (simp add: duplicate_result_def)
qed

theorem duplicate_rule_first_witness:
  "distinct (map tx_id [dup_a, dup_b, dup_c])
   \<and> list_all (\<lambda>u. CHR ''|'' \<notin> set (transaction_date u)) [dup_a, dup_b, dup_c]
   \<and> list_all (\<lambda>u. CHR ''|'' \<notin> set (numberToString sample_rt (cents sample_rt u)))
        [dup_a, dup_b, dup_c]
   \<and> list_all (\<lambda>u. list_all (\<lambda>v.
          numberToString sample_rt (cents sample_rt u) = numberToString sample_rt (cents sample_rt v)
          \<longrightarrow> cents sample_rt u = cents sample_rt v) [dup_a, dup_b, dup_c]) [dup_a, dup_b, dup_c]
   \<and> dup_a \<in> set [dup_a, dup_b, dup_c]
   \<and> norm_vendor sample_rt dup_a = ''ACME LTD''
   \<and> (\<exists>u \<in> set [dup_a, dup_b, dup_c]. tx_id u \<noteq> tx_id dup_a \<and> same_triple sample_rt u dup_a)
   \<and> amount dup_a \<noteq> amount dup_b
   \<and> cents sample_rt dup_a = Num 200000001 \<and> cents sample_rt dup_b = Num 200000001
   \<and> cents sample_rt dup_c = Num 200000000
   \<and> duplicate_group sample_rt [dup_a, dup_b, dup_c] dup_a = [dup_a, dup_b]
   \<and> amount dup_a > 1000000 \<and> country_rule_fires sample_rt dup_a
   \<and> level (evaluate sample_rt [dup_a, dup_b, dup_c] dup_a) = high
   \<and> score (evaluate sample_rt [dup_a, dup_b, dup_c] dup_a) = 90
   \<and> why (evaluate sample_rt [dup_a, dup_b, dup_c] dup_a)
       = ''Rule 1 triggered: Duplicate transaction (2 occurrences)''
   \<and> score (evaluate sample_rt [dup_a, dup_b, dup_c] dup_c) = 85"
proof -
  have h1: "distinct (map tx_id [dup_a, dup_b, dup_c])" by code_simp
  have h2: "\<forall>u \<in> set [dup_a, dup_b, dup_c]. CHR ''|'' \<notin> set (transaction_date u)" by code_simp
  have h2a: "\<forall>u \<in> set [dup_a, dup_b, dup_c].
               CHR ''|'' \<notin> set (numberToString sample_rt (cents sample_rt u))"
    by code_simp
  have h2b: "\<forall>u \<in> set [dup_a, dup_b, dup_c]. \<forall>v \<in> set [dup_a, dup_b, dup_c].
               numberToString sample_rt (cents sample_rt u) = numberToString sample_rt (cents sample_rt v)
               \<longrightarrow> cents sample_rt u = cents sample_rt v"
    by code_simp
  have h3: "dup_a \<in> set [dup_a, dup_b, dup_c]" by simp
  have v: "norm_vendor sample_rt dup_a = ''ACME LTD''" by code_simp
  then have h4: "norm_vendor sample_rt dup_a \<noteq> []" by simp
  have h5: "\<exists>u \<in> set [dup_a, dup_b, dup_c]. tx_id u \<noteq> tx_id dup_a \<and> same_triple sample_rt u dup_a"
    by code_simp
  have h6: "amount dup_a > 1000000 \<and> country_rule_fires sample_rt dup_a" by code_simp
  have c: "amount dup_a \<noteq> amount dup_b"
    "cents sample_rt dup_a = Num 200000001" "cents sample_rt dup_b = Num 200000001"
    "cents sample_rt dup_c = Num 200000000"
    by code_simp+
  have g: "duplicate_group sample_rt [dup_a, dup_b, dup_c] dup_a = [dup_a, dup_b]" by code_simp
  have n: "show_nat (length [dup_a, dup_b]) = ''2''" by code_simp
  have o: "score (evaluate sample_rt [dup_a, dup_b, dup_c] dup_c) = 85" by code_simp
  from duplicate_rule_first [OF h1 h2 h2a h2b h3 h4 h5]
  have "level (evaluate sample_rt [dup_a, dup_b, dup_c] dup_a) = high"
    and "score (evaluate sample_rt [dup_a, dup_b, dup_c] dup_a) = 90"
    and "why (evaluate sample_rt [dup_a, dup_b, dup_c] dup_a)
          = ''Rule 1 triggered: Duplicate transaction (''
            @ show_nat (length [dup_a, dup_b]) @ '' occurrences)''"
    unfolding g by blast+
  with n h1 h2 h2a h2b h3 v h5 h6 c g o show ?thesis by (simp add: list_all_iff)
qed

text \<open>
  C2. For a transaction that the duplicate scan does not flag: an amount above
  1,000,000 gives HIGH with score 85; an amount from 500,000 to 1,000,000, both ends
  included, gives MEDIUM with score 60; an amount below 500,000 does not trigger the
  high-value rule, and the outcome is the one of the vendor-country rule, else of the
  frequency rule, else LOW.
\<close>

theorem high_value_rule:
  assumes "\<not> fst (isDuplicate (tx_id t) (buildDuplicateGroups rt batch))"
  shows "(amount t > 1000000 \<longrightarrow>
            evaluate rt batch t = high_value_result rt (amount t)
            \<and> level (evaluate rt batch t) = high \<and> score (evaluate rt batch t) = 85)
       \<and> (500000 \<le> amount t \<and> amount t \<le> 1000000 \<longrightarrow>
            evaluate rt batch t = mid_value_result rt (amount t)
            \<and> level (evaluate rt batch t) = medium \<and> score (evaluate rt batch t) = 60)
       \<and> (amount t < 500000 \<longrightarrow>
            evaluate rt batch t =
              (if country_rule_fires rt t then country_result (norm_country rt t)
               else if norm_vendor rt t \<noteq> [] \<and> sameVendorSameDateCount rt t batch > 1
                 then frequency_result (sameVendorSameDateCount rt t batch)
               else low_result))"
  using analyzeTransaction_not_dup [OF assms, of rt batch]
  unfolding evaluate_def by (simp add: result_fields)

theorem high_value_rule_witness:
  "list_all (\<lambda>t. \<not> fst (isDuplicate (tx_id t) (buildDuplicateGroups sample_rt threshold_batch)))
     threshold_batch
   \<and> amount val_1000000 = 1000000
   \<and> level (evaluate sample_rt threshold_batch val_1000000) = medium
   \<and> score (evaluate sample_rt threshold_batch val_1000000) = 60
   \<and> amount val_above_1000000 > 1000000
   \<and> level (evaluate sample_rt threshold_batch val_above_1000000) = high
   \<and> score (evaluate sample_rt threshold_batch val_above_1000000) = 85
   \<and> amount val_500000 = 500000
   \<and> level (evaluate sample_rt threshold_batch val_500000) = medium
   \<and> score (evaluate sample_rt threshold_batch val_500000) = 60
   \<and> amount val_499999 < 500000
   \<and> evaluate sample_rt threshold_batch val_499999 = low_result"
proof -
  have nd: "\<forall>t \<in> set threshold_batch.
              \<not> fst (isDuplicate (tx_id t) (buildDuplicateGroups sample_rt threshold_batch))"
    by code_simp
  have m: "val_1000000 \<in> set threshold_batch" "val_above_1000000 \<in> set threshold_batch"
    "val_500000 \<in> set threshold_batch" "val_499999 \<in> set threshold_batch"
    by (simp_all add: threshold_batch_def)
  have a: "amount val_1000000 = 1000000" "amount val_above_1000000 > 1000000"
    "amount val_500000 = 500000" "amount val_499999 < 500000"
    by (simp_all add: val_1000000_def val_above_1000000_def val_500000_def val_499999_def mk_tx_def)
  have c: "\<not> country_rule_fires sample_rt val_499999" by code_simp
  have n: "sameVendorSameDateCount sample_rt val_499999 threshold_batch = 1" by code_simp
  have r1: "level (evaluate sample_rt threshold_batch val_1000000) = medium
          \<and> score (evaluate sample_rt threshold_batch val_1000000) = 60"
    using high_value_rule [of val_1000000 sample_rt threshold_batch] nd m(1) a(1)
    by (simp add: result_fields)
  have r2: "level (evaluate sample_rt threshold_batch val_above_1000000) = high
          \<and> score (evaluate sample_rt threshold_batch val_above_1000000) = 85"
    using high_value_rule [of val_above_1000000 sample_rt threshold_batch] nd m(2) a(2)
    by (simp add: result_fields)
  have r3: "level (evaluate sample_rt threshold_batch val_500000) = medium
          \<and> score (evaluate sample_rt threshold_batch val_500000) = 60"
    using high_value_rule [of val_500000 sample_rt threshold_batch] nd m(3) a(3)
    by (simp add: result_fields)
  have r4: "evaluate sample_rt threshold_batch val_499999 = low_result"
    using high_value_rule [of val_499999 sample_rt threshold_batch] nd m(4) a(4) c n by simp
  from nd a r1 r2 r3 r4 show ?thesis by (simp add: list_all_iff)
qed

text \<open>
  C3, as the code has it. The frequency rule is guarded by a non-blank normalized vendor
  name. For a transaction that the duplicate scan does not flag, whose amount is below
  500,000, whose country is not listed and whose normalized vendor name is not blank: if
  more than one transaction of the batch has the same normalized vendor name and the
  same date, the outcome is MEDIUM with score 45 and the single frequency factor, and
  the count in the reason is the number of those transactions.
\<close>

theorem frequency_rule:
  assumes "\<not> fst (isDuplicate (tx_id t) (buildDuplicateGroups rt batch))"
    and "\<not> amount t \<ge> 500000"
    and "\<not> country_rule_fires rt t"
    and "norm_vendor rt t \<noteq> []"
    and "length (filter (\<lambda>u. norm_vendor rt u = norm_vendor rt t
                           \<and> transaction_date u = transaction_date t) batch) > 1"
  shows "level (evaluate rt batch t) = medium
       \<and> score (evaluate rt batch t) = 45
       \<and> factors (evaluate rt batch t) =
           [\<lparr> rf_type = ''frequency_risk'',
              rf_description = ''FREQUENCY RISK (Rule 4): ''
                @ show_nat (length (filter (\<lambda>u. norm_vendor rt u = norm_vendor rt t
                                            \<and> transaction_date u = transaction_date t) batch))
                @ '' payments to the same vendor on the same date'',
              rf_severity = MEDIUM \<rparr>]
       \<and> why (evaluate rt batch t) =
           ''Rule 4 triggered: ''
             @ show_nat (length (filter (\<lambda>u. norm_vendor rt u = norm_vendor rt t
                                         \<and> transaction_date u = transaction_date t) batch))
             @ '' payments to same vendor on same date''"
proof -
  have "evaluate rt batch t = frequency_result (sameVendorSameDateCount rt t batch)"
    using analyzeTransaction_not_dup [OF assms(1), of rt batch] assms(2-5)
    unfolding evaluate_def by (simp add: sameVendorSameDateCount_def)
  then show ?thesis by (simp add: frequency_result_def sameVendorSameDateCount_def)
qed

theorem frequency_rule_witness:
  "\<not> fst (isDuplicate (tx_id freq_a) (buildDuplicateGroups sample_rt [freq_a, freq_b]))
   \<and> \<not> amount freq_a \<ge> 500000
   \<and> \<not> country_rule_fires sample_rt freq_a
   \<and> norm_vendor sample_rt freq_a \<noteq> []
   \<and> amount freq_a \<noteq> amount freq_b
   \<and> length (filter (\<lambda>u. norm_vendor sample_rt u = norm_vendor sample_rt freq_a
                        \<and> transaction_date u = transaction_date freq_a) [freq_a, freq_b]) = 2
   \<and> level (evaluate sample_rt [freq_a, freq_b] freq_a) = medium
   \<and> score (evaluate sample_rt [freq_a, freq_b] freq_a) = 45
   \<and> why (evaluate sample_rt [freq_a, freq_b] freq_a)
       = ''Rule 4 triggered: 2 payments to same vendor on same date''"
proof -
  have h1: "\<not> fst (isDuplicate (tx_id freq_a) (buildDuplicateGroups sample_rt [freq_a, freq_b]))"
    by code_simp
  have h2: "\<not> amount freq_a \<ge> 500000" by code_simp
  have h3: "\<not> country_rule_fires sample_rt freq_a" by code_simp
  have h4: "norm_vendor sample_rt freq_a \<noteq> []" by code_simp
  have n: "length (filter (\<lambda>u. norm_vendor sample_rt u = norm_vendor sample_rt freq_a
                        \<and> transaction_date u = transaction_date freq_a) [freq_a, freq_b]) = 2"
    by code_simp
  have h5: "length (filter (\<lambda>u. norm_vendor sample_rt u = norm_vendor sample_rt freq_a
                        \<and> transaction_date u = transaction_date freq_a) [freq_a, freq_b]) > 1"
    unfolding n by simp
  have d: "amount freq_a \<noteq> amount freq_b" by code_simp
  have s: "show_nat 2 = ''2''" by code_simp
  from frequency_rule [OF h1 h2 h3 h4 h5]
  have "level (evaluate sample_rt [freq_a, freq_b] freq_a) = medium"
    and "score (evaluate sample_rt [freq_a, freq_b] freq_a) = 45"
    and "why (evaluate sample_rt [freq_a, freq_b] freq_a) =
           ''Rule 4 triggered: '' @ show_nat 2 @ '' payments to same vendor on same date''"
    unfolding n by blast+
  with h1 h2 h3 h4 n d s show ?thesis by simp
qed

text \<open>
  C3, as the claim is worded, fails on transactions without a vendor name: two payments
  with blank vendor names on one day share the (empty) normalized vendor name and the
  date, none of the first three rules fires on them, and the outcome is LOW.
\<close>

theorem frequency_rule_blank_vendor_counterexample:
  "\<not> fst (isDuplicate (tx_id blank_a) (buildDuplicateGroups sample_rt [blank_a, blank_b]))
   \<and> \<not> amount blank_a \<ge> 500000
   \<and> \<not> country_rule_fires sample_rt blank_a
   \<and> sameVendorSameDateCount sample_rt blank_a [blank_a, blank_b] = 2
   \<and> level (evaluate sample_rt [blank_a, blank_b] blank_a) = low
   \<and> score (evaluate sample_rt [blank_a, blank_b] blank_a) = 0
   \<and> factors (evaluate sample_rt [blank_a, blank_b] blank_a) = []"
  by code_simp

text \<open>
  C4. Every outcome of the rule chain is one of its six outcomes: the tier is low exactly
  when the factor list is empty, a low outcome has score 0, and every other outcome
  carries exactly one factor.
\<close>

theorem rule_chain_single_outcome:
  "(level (evaluate rt batch tx) = low \<longleftrightarrow> factors (evaluate rt batch tx) = [])
   \<and> (level (evaluate rt batch tx) = low \<longrightarrow> score (evaluate rt batch tx) = 0)
   \<and> (level (evaluate rt batch tx) \<noteq> low \<longrightarrow> length (factors (evaluate rt batch tx)) = 1)
   \<and> (level (evaluate rt batch tx), score (evaluate rt batch tx))
        \<in> {(high, 90), (high, 85), (medium, 60), (medium, 50), (medium, 45), (low, 0)}"
  using analyzeTransaction_cases [of rt tx batch "buildDuplicateGroups rt batch"]
  unfolding evaluate_def
  by (elim insertE emptyE) (simp_all add: result_fields)

theorem rule_chain_single_outcome_witness:
  "level (evaluate sample_rt [blank_a, freq_a, freq_b] blank_a) = low
   \<and> score (evaluate sample_rt [blank_a, freq_a, freq_b] blank_a) = 0
   \<and> factors (evaluate sample_rt [blank_a, freq_a, freq_b] blank_a) = []
   \<and> level (evaluate sample_rt [blank_a, freq_a, freq_b] freq_a) \<noteq> low
   \<and> length (factors (evaluate sample_rt [blank_a, freq_a, freq_b] freq_a)) = 1"
proof -
  have l: "level (evaluate sample_rt [blank_a, freq_a, freq_b] blank_a) = low" by code_simp
  have m: "level (evaluate sample_rt [blank_a, freq_a, freq_b] freq_a) \<noteq> low" by code_simp
  from l m rule_chain_single_outcome [of sample_rt "[blank_a, freq_a, freq_b]" blank_a]
    rule_chain_single_outcome [of sample_rt "[blank_a, freq_a, freq_b]" freq_a]
  show ?thesis by simp
qed

text \<open>
  C5. Reordering a batch of transactions with pairwise distinct ids changes nothing for
  any of its transactions: the outcome of the rule chain (tier, score, factor list and
  reason), the result of the duplicate scan (membership and group size) and the
  same-vendor same-date count are the same for the batch and for each of its
  permutations.
\<close>

theorem evaluate_order_independent:
  assumes perm: "mset batch' = mset batch"
    and ids: "distinct (map tx_id batch)"
    and t: "t \<in> set batch"
  shows "evaluate rt batch' t = evaluate rt batch t
       \<and> isDuplicate (tx_id t) (buildDuplicateGroups rt batch')
           = isDuplicate (tx_id t) (buildDuplicateGroups rt batch)
       \<and> sameVendorSameDateCount rt t batch' = sameVendorSameDateCount rt t batch"
proof -
  have "mset (map tx_id batch') = mset (map tx_id batch)" using perm by simp
  then have ids': "distinct (map tx_id batch')" using ids by (metis mset_eq_imp_distinct_iff)
  have t': "t \<in> set batch'" using perm t by (metis mset_eq_setD)
  have size: "key_group_size rt batch' t = key_group_size rt batch t"
    by (simp add: key_group_size_def length_filter_mset perm)
  have cnt: "sameVendorSameDateCount rt t batch' = sameVendorSameDateCount rt t batch"
    by (simp add: sameVendorSameDateCount_def length_filter_mset perm)
  have dup: "isDuplicate (tx_id t) (buildDuplicateGroups rt batch')
           = isDuplicate (tx_id t) (buildDuplicateGroups rt batch)"
    by (simp add: isDuplicate_buildDuplicateGroups [OF ids t]
        isDuplicate_buildDuplicateGroups [OF ids' t'] size)
  have "evaluate rt batch' t = evaluate rt batch t"
    by (simp only: evaluate_def analyzeTransaction_def dup cnt)
  with dup cnt show ?thesis by simp
qed

theorem evaluate_order_independent_witness:
  "mset [dup_b, freq_b, dup_a, freq_a] = mset [freq_a, freq_b, dup_a, dup_b]
   \<and> distinct (map tx_id [freq_a, freq_b, dup_a, dup_b])
   \<and> dup_a \<in> set [freq_a, freq_b, dup_a, dup_b]
   \<and> evaluate sample_rt [dup_b, freq_b, dup_a, freq_a] dup_a
       = evaluate sample_rt [freq_a, freq_b, dup_a, dup_b] dup_a
   \<and> score (evaluate sample_rt [dup_b, freq_b, dup_a, freq_a] dup_a) = 90"
proof -
  have h1: "mset [dup_b, freq_b, dup_a, freq_a] = mset [freq_a, freq_b, dup_a, dup_b]"
    by simp
  have h2: "distinct (map tx_id [freq_a, freq_b, dup_a, dup_b])" by code_simp
  have h3: "dup_a \<in> set [freq_a, freq_b, dup_a, dup_b]" by simp
  have s: "score (evaluate sample_rt [freq_a, freq_b, dup_a, dup_b] dup_a) = 90" by code_simp
  from evaluate_order_independent [OF h1 h2 h3] h1 h2 h3 s
  show ?thesis by simp
qed

text \<open>
  C10. In a batch with pairwise distinct ids, a transaction whose vendor name is empty
  or white space only, that is, one that \<open>trim\<close> leaves nothing of, is never classified
  by the duplicate rule or by the frequency rule, whatever else the batch holds: its
  outcome is the one of the high-value rule if its amount is at least 500,000, else the
  one of the vendor-country rule if its country is listed, else LOW with score 0 and no
  factor. Of the runtime this uses that the empty string in upper case is empty.
\<close>

theorem blank_vendor_skips_frequency:
  assumes blank: "trim rt (vendor_name t) = []"
    and upper: "toUpperCase rt [] = []"
    and ids: "distinct (map tx_id batch)"
    and t: "t \<in> set batch"
  shows "evaluate rt batch t =
           (if amount t > 1000000 then high_value_result rt (amount t)
            else if amount t \<ge> 500000 then mid_value_result rt (amount t)
            else if country_rule_fires rt t then country_result (norm_country rt t)
            else low_result)
       \<and> (\<not> amount t \<ge> 500000 \<and> \<not> country_rule_fires rt t \<longrightarrow>
            level (evaluate rt batch t) = low \<and> score (evaluate rt batch t) = 0
            \<and> factors (evaluate rt batch t) = [])"
proof -
  have v: "norm_vendor rt t = []" using blank upper by (simp add: norm_vendor_def)
  with isDuplicate_buildDuplicateGroups [OF ids t, of rt]
  have "\<not> fst (isDuplicate (tx_id t) (buildDuplicateGroups rt batch))" by simp
  from analyzeTransaction_not_dup [OF this, of rt batch] v
  have "evaluate rt batch t =
           (if amount t > 1000000 then high_value_result rt (amount t)
            else if amount t \<ge> 500000 then mid_value_result rt (amount t)
            else if country_rule_fires rt t then country_result (norm_country rt t)
            else low_result)"
    unfolding evaluate_def by auto
  then show ?thesis by (simp add: result_fields)
qed

theorem blank_vendor_skips_frequency_witness:
  "trim sample_rt (vendor_name blank_b) = []
   \<and> toUpperCase sample_rt [] = []
   \<and> vendor_name blank_b = ''   ''
   \<and> distinct (map tx_id [blank_a, blank_b, freq_a])
   \<and> blank_b \<in> set [blank_a, blank_b, freq_a]
   \<and> vendor_name blank_a = []
   \<and> transaction_date blank_a = transaction_date blank_b
   \<and> \<not> amount blank_b \<ge> 500000 \<and> \<not> country_rule_fires sample_rt blank_b
   \<and> level (evaluate sample_rt [blank_a, blank_b, freq_a] blank_b) = low
   \<and> score (evaluate sample_rt [blank_a, blank_b, freq_a] blank_b) = 0
   \<and> factors (evaluate sample_rt [blank_a, blank_b, freq_a] blank_b) = []"
proof -
  have h1: "trim sample_rt (vendor_name blank_b) = []" by code_simp
  have h1a: "toUpperCase sample_rt [] = []" by code_simp
  have h2: "distinct (map tx_id [blank_a, blank_b, freq_a])" by code_simp
  have h3: "blank_b \<in> set [blank_a, blank_b, freq_a]" by simp
  have h4: "\<not> amount blank_b \<ge> 500000 \<and> \<not> country_rule_fires sample_rt blank_b" by code_simp
  have h5: "vendor_name blank_b = ''   '' \<and> vendor_name blank_a = []
            \<and> transaction_date blank_a = transaction_date blank_b"
    by code_simp
  from blank_vendor_skips_frequency [OF h1 h1a h2 h3] h4
  have "level (evaluate sample_rt [blank_a, blank_b, freq_a] blank_b) = low
      \<and> score (evaluate sample_rt [blank_a, blank_b, freq_a] blank_b) = 0
      \<and> factors (evaluate sample_rt [blank_a, blank_b, freq_a] blank_b) = []"
    by blast
  with h1 h1a h2 h3 h4 h5 show ?thesis by simp
qed


section \<open>Properties of the rate limiter\<close>

lemma checkRateLimit_with_open:
  assumes "store userId = None \<or> (\<exists>e. store userId = Some e \<and> now \<ge> resetTime e)"
  shows "checkRateLimit_with window_ms max_requests now store userId =
           (Allowed, store(userId \<mapsto> \<lparr> rl_count = 1, resetTime = now + window_ms \<rparr>))"
  using assms by (auto simp: checkRateLimit_with_def)

lemma checkRateLimit_with_inside:
  assumes "now < r"
  shows "checkRateLimit_with window_ms max_requests now
           (base(userId \<mapsto> \<lparr> rl_count = c, resetTime = r \<rparr>)) userId =
           (if c \<ge> max_requests
            then (Denied (Math_ceil (of_int (r - now) / 1000)),
                  base(userId \<mapsto> \<lparr> rl_count = c, resetTime = r \<rparr>))
            else (Allowed, base(userId \<mapsto> \<lparr> rl_count = c + 1, resetTime = r \<rparr>)))"
  using assms by (simp add: checkRateLimit_with_def)

lemma run_requests_Cons:
  "run_requests chk store userId (now # later) =
     (fst (chk now store userId) # fst (run_requests chk (snd (chk now store userId)) userId later),
      snd (run_requests chk (snd (chk now store userId)) userId later))"
  by (simp add: run_requests.simps split_beta)

lemma run_requests_inside:
  assumes "\<forall>t \<in> set later. t < r" and "k < length later"
  shows "fst (run_requests (checkRateLimit_with window_ms max_requests)
               (base(userId \<mapsto> \<lparr> rl_count = min c max_requests, resetTime = r \<rparr>))
               userId later) ! k =
           (if c + k < max_requests then Allowed
            else Denied (Math_ceil (of_int (r - later ! k) / 1000)))"
  using assms
proof (induction later arbitrary: c k)
  case Nil
  then show ?case by simp
next
  case (Cons now later)
  have now: "now < r" and rest: "\<forall>t \<in> set later. t < r" using Cons.prems(1) by simp_all
  let ?chk = "checkRateLimit_with window_ms max_requests"
  let ?here = "base(userId \<mapsto> \<lparr> rl_count = min c max_requests, resetTime = r \<rparr>)"
  let ?next = "base(userId \<mapsto> \<lparr> rl_count = min (Suc c) max_requests, resetTime = r \<rparr>)"
  have step: "?chk now ?here userId =
                (if c < max_requests then Allowed
                 else Denied (Math_ceil (of_int (r - now) / 1000)), ?next)"
  proof (cases "c < max_requests")
    case True
    then have "min c max_requests = c" "min (Suc c) max_requests = Suc c" by simp_all
    with True show ?thesis by (simp add: checkRateLimit_with_inside [OF now])
  next
    case False
    then have "min c max_requests = max_requests" "min (Suc c) max_requests = max_requests"
      by simp_all
    with False show ?thesis by (simp add: checkRateLimit_with_inside [OF now])
  qed
  show ?case
  proof (cases k)
    case 0
    have "fst (run_requests ?chk ?here userId (now # later)) ! 0
            = (if c < max_requests then Allowed
               else Denied (Math_ceil (of_int (r - now) / 1000)))"
      by (simp only: run_requests_Cons step fst_conv snd_conv nth_Cons_0)
    then have "fst (run_requests ?chk ?here userId (now # later)) ! 0
            = (if c + 0 < max_requests then Allowed
               else Denied (Math_ceil (of_int (r - (now # later) ! 0) / 1000)))"
      by simp
    then show ?thesis unfolding 0 .
  next
    case (Suc j)
    with Cons.prems(2) have j: "j < length later" by simp
    have "fst (run_requests ?chk ?here userId (now # later)) ! Suc j
            = fst (run_requests ?chk ?next userId later) ! j"
      by (simp only: run_requests_Cons step fst_conv snd_conv nth_Cons_Suc)
    also have "\<dots> = (if Suc c + j < max_requests then Allowed
                      else Denied (Math_ceil (of_int (r - later ! j) / 1000)))"
      by (rule Cons.IH [OF rest j])
    finally have "fst (run_requests ?chk ?here userId (now # later)) ! Suc j
            = (if c + Suc j < max_requests then Allowed
               else Denied (Math_ceil (of_int (r - (now # later) ! Suc j) / 1000)))"
      by simp
    then show ?thesis unfolding Suc .
  qed
qed

lemma run_requests_window:
  assumes fresh: "store userId = None \<or> (\<exists>e. store userId = Some e \<and> t0 \<ge> resetTime e)"
    and pos: "0 < max_requests"
    and within: "\<forall>t \<in> set later. t < t0 + window_ms"
    and k: "k < length (t0 # later)"
  shows "fst (run_requests (checkRateLimit_with window_ms max_requests) store userId (t0 # later)) ! k
           = window_answer window_ms max_requests t0 k ((t0 # later) ! k)"
proof -
  let ?chk = "checkRateLimit_with window_ms max_requests"
  let ?opened = "store(userId \<mapsto> \<lparr> rl_count = 1, resetTime = t0 + window_ms \<rparr>)"
  have first: "?chk t0 store userId = (Allowed, ?opened)"
    using fresh by (auto simp: checkRateLimit_with_def)
  show ?thesis
  proof (cases k)
    case 0
    have "fst (run_requests ?chk store userId (t0 # later)) ! 0 = Allowed"
      by (simp only: run_requests_Cons first fst_conv snd_conv nth_Cons_0)
    with 0 pos show ?thesis by (simp add: window_answer_def)
  next
    case (Suc j)
    with k have j: "j < length later" by simp
    have one: "min 1 max_requests = 1" using pos by simp
    have "fst (run_requests ?chk store userId (t0 # later)) ! Suc j
            = fst (run_requests ?chk ?opened userId later) ! j"
      by (simp only: run_requests_Cons first fst_conv snd_conv nth_Cons_Suc)
    also have "\<dots> = (if 1 + j < max_requests then Allowed
                      else Denied (Math_ceil (of_int (t0 + window_ms - later ! j) / 1000)))"
      using run_requests_inside [OF within j, of window_ms max_requests store userId 1]
      by (simp only: one)
    finally show ?thesis using Suc by (simp add: window_answer_def)
  qed
qed

lemma Math_ceil_positive: "now < r \<Longrightarrow> 0 < Math_ceil (of_int (r - now) / 1000)"
  by (simp add: Math_ceil_def)

text \<open>
  C6. For the analysis limiter (10 requests per window of 3,600,000 ms) and the report
  limiter (20 requests per window of 86,400,000 ms) alike: let a caller send a request at
  \<open>t0\<close>, having no window or a window whose reset time is at or before \<open>t0\<close>, and then
  further requests, each before \<open>t0\<close> plus the window. The first request is allowed and
  leaves the caller with count 1 and reset time \<open>t0\<close> plus the window; request number
  \<open>k\<close> (from 0) is allowed when \<open>k\<close> is below the ceiling, and denied otherwise, with a
  retry-after that is positive and equal to the milliseconds left until the reset
  divided by 1000 and rounded up.
\<close>

theorem fixed_window_rate_limit:
  assumes limiter: "(chk, window_ms, max_requests) \<in>
                      {(checkRateLimit, 3600000, 10), (checkRateLimit_report, 86400000, 20)}"
    and fresh: "store userId = None \<or> (\<exists>e. store userId = Some e \<and> t0 \<ge> resetTime e)"
    and within: "\<forall>t \<in> set later. t < t0 + window_ms"
    and k: "k < length (t0 # later)"
  shows "chk t0 store userId =
           (Allowed, store(userId \<mapsto> \<lparr> rl_count = 1, resetTime = t0 + window_ms \<rparr>))
       \<and> fst (run_requests chk store userId (t0 # later)) ! k =
           (if k < max_requests then Allowed
            else Denied (Math_ceil (of_int (t0 + window_ms - (t0 # later) ! k) / 1000)))
       \<and> (max_requests \<le> k \<longrightarrow>
            0 < Math_ceil (of_int (t0 + window_ms - (t0 # later) ! k) / 1000))"
proof -
  from limiter have chk: "chk = checkRateLimit_with window_ms max_requests" and pos: "0 < max_requests"
    by (auto simp: checkRateLimit_def checkRateLimit_report_def RATE_LIMIT_WINDOW_MS_def
        MAX_REQUESTS_PER_WINDOW_def REPORT_RATE_LIMIT_WINDOW_MS_def MAX_REPORTS_PER_WINDOW_def)
  have first: "chk t0 store userId =
           (Allowed, store(userId \<mapsto> \<lparr> rl_count = 1, resetTime = t0 + window_ms \<rparr>))"
    unfolding chk using fresh by (auto simp: checkRateLimit_with_def)
  have answers: "fst (run_requests chk store userId (t0 # later)) ! k =
           (if k < max_requests then Allowed
            else Denied (Math_ceil (of_int (t0 + window_ms - (t0 # later) ! k) / 1000)))"
    unfolding chk
    using run_requests_window [of store userId t0 max_requests later window_ms k, OF fresh pos within k]
    by (simp add: window_answer_def)
  have "0 < Math_ceil (of_int (t0 + window_ms - (t0 # later) ! k) / 1000)" if "max_requests \<le> k"
  proof -
    from that pos obtain j where j: "k = Suc j" by (cases k) auto
    with k have "later ! j \<in> set later" by simp
    with within have "later ! j < t0 + window_ms" by blast
    then show ?thesis unfolding j nth_Cons_Suc by (rule Math_ceil_positive)
  qed
  with first answers show ?thesis by blast
qed

theorem fixed_window_rate_limit_witness:
  "(checkRateLimit, 3600000, 10) \<in>
      {(checkRateLimit, 3600000, 10), (checkRateLimit_report, 86400000, 20)}
   \<and> (Map.empty :: rateLimitStore) ''alice'' = None
   \<and> list_all (\<lambda>t. t < 0 + 3600000)
         [1000, 2000, 3000, 4000, 5000, 6000, 7000, 8000, 9000, 10500 :: int]
   \<and> 10 < length [0, 1000, 2000, 3000, 4000, 5000, 6000, 7000, 8000, 9000, 10500 :: int]
   \<and> fst (run_requests checkRateLimit Map.empty ''alice''
            [0, 1000, 2000, 3000, 4000, 5000, 6000, 7000, 8000, 9000, 10500]) ! 9 = Allowed
   \<and> fst (run_requests checkRateLimit Map.empty ''alice''
            [0, 1000, 2000, 3000, 4000, 5000, 6000, 7000, 8000, 9000, 10500]) ! 10 = Denied 3590"
proof -
  have h1: "(checkRateLimit, 3600000, 10) \<in>
      {(checkRateLimit, 3600000 :: int, 10 :: nat), (checkRateLimit_report, 86400000, 20)}"
    by simp
  have h2: "(Map.empty :: rateLimitStore) ''alice'' = None
            \<or> (\<exists>e. (Map.empty :: rateLimitStore) ''alice'' = Some e \<and> 0 \<ge> resetTime e)"
    by simp
  have h3: "\<forall>t \<in> set [1000, 2000, 3000, 4000, 5000, 6000, 7000, 8000, 9000, 10500 :: int].
              t < 0 + 3600000"
    by simp
  have h4: "9 < length (0 # [1000, 2000, 3000, 4000, 5000, 6000, 7000, 8000, 9000, 10500 :: int])"
    and h5: "10 < length (0 # [1000, 2000, 3000, 4000, 5000, 6000, 7000, 8000, 9000, 10500 :: int])"
    by simp_all
  have c: "Math_ceil (of_int (0 + 3600000 - 10500) / 1000) = 3590"
    by code_simp
  from fixed_window_rate_limit [of checkRateLimit 3600000 10 Map.empty "''alice''" 0 _ 9,
         OF h1 h2 h3 h4]
       fixed_window_rate_limit [of checkRateLimit 3600000 10 Map.empty "''alice''" 0 _ 10,
         OF h1 h2 h3 h5] c h3
  show ?thesis by simp
qed


section \<open>Properties of the merge of the narrative onto the assessments\<close>

lemma deterministic_part_assign_advisory:
  "deterministic_part (assign_advisory explanation a) = deterministic_part a"
  by (simp add: deterministic_part_def assign_advisory_def)

lemma assign_first_frame:
  "map deterministic_part (assign_first p (assign_advisory explanation) assessments)
     = map deterministic_part assessments"
  by (induction assessments) (simp_all add: deterministic_part_assign_advisory)

lemma merge_loop_frame:
  "map deterministic_part (merge_loop aiExplanations assessments) = map deterministic_part assessments"
  by (induction aiExplanations arbitrary: assessments) (simp_all add: assign_first_frame)

lemma merge_ai_content_cases:
  "merge_ai_content rt aiContent assessments = assessments
   \<or> (\<exists>aiExplanations. merge_ai_content rt aiContent assessments
                           = merge_loop aiExplanations assessments)"
proof (cases aiContent)
  case (JStr s)
  show ?thesis
  proof (cases "JSON_parse rt (cleanContent rt s)")
    case None
    with JStr show ?thesis by (simp add: merge_ai_content_def)
  next
    case (Some parsed)
    with JStr show ?thesis by (cases parsed) (auto simp: merge_ai_content_def)
  qed
qed (simp_all add: merge_ai_content_def)

lemma merge_ai_content_frame:
  "map deterministic_part (merge_ai_content rt aiContent assessments)
     = map deterministic_part assessments"
  using merge_ai_content_cases [of rt aiContent assessments]
  by (auto simp: merge_loop_frame)

lemma assign_first_misses:
  "list_all (\<lambda>a. \<not> p a) assessments \<Longrightarrow> assign_first p f assessments = assessments"
  by (induction assessments) simp_all

lemma merge_loop_unmatched:
  "list_all (\<lambda>e. list_all (\<lambda>a. \<not> matches e a) assessments) aiExplanations \<Longrightarrow>
   merge_loop aiExplanations assessments = assessments"
  by (induction aiExplanations) (simp_all add: assign_first_misses)

lemma assign_first_hits:
  "a \<in> set assessments \<Longrightarrow> p a \<Longrightarrow> \<forall>b \<in> set assessments. p b \<longrightarrow> b = a \<Longrightarrow>
   f a \<in> set (assign_first p f assessments)"
proof (induction assessments)
  case Nil
  then show ?case by simp
next
  case (Cons x xs)
  show ?case
  proof (cases "p x")
    case True
    with Cons.prems(3) have "x = a" by simp
    with True show ?thesis by simp
  next
    case False
    with Cons.prems(1,2) have "a \<in> set xs" by auto
    moreover have "\<forall>b \<in> set xs. p b \<longrightarrow> b = a" using Cons.prems(3) by simp
    ultimately have "f a \<in> set (assign_first p f xs)" using Cons.IH Cons.prems(2) by blast
    with False show ?thesis by simp
  qed
qed

lemma analyze_try_assessments:
  assumes "analyze_try rt batch fetched = Inr response"
  shows "\<exists>returned. response_assessments response = Some returned
           \<and> map deterministic_part returned
               = map deterministic_part (map (make_assessment rt batch) batch)"
proof -
  let ?as = "map (make_assessment rt batch) batch"
  have ne: "batch \<noteq> []" using assms by (auto simp: analyze_try_def)
  show ?thesis
  proof (cases "filter (\<lambda>a. risk_level a \<noteq> low) ?as = []")
    case True
    with ne assms have "response = AssessmentsResponse 200 ?as"
      by (simp add: analyze_try_def Let_def)
    then show ?thesis by (simp add: response_assessments_def)
  next
    case flagged: False
    show ?thesis
    proof (cases fetched)
      case FetchFailed
      with ne flagged assms show ?thesis by (simp add: analyze_try_def Let_def)
    next
      case (Fetched aiResponse)
      show ?thesis
      proof (cases "ok aiResponse")
        case False
        with ne flagged Fetched assms
        have "response = ErrorWithAssessments 429
                           ''Rate limit exceeded. Please try again in a moment.'' ?as
            \<or> response = ErrorWithAssessments 402
                           ''AI credits exhausted. Please add credits to continue.'' ?as
            \<or> response = AssessmentsResponse 200 ?as"
          by (simp add: analyze_try_def Let_def split: if_splits)
        then show ?thesis by (auto simp: response_assessments_def)
      next
        case True
        show ?thesis
        proof (cases "JSON_parse rt (body_text aiResponse)")
          case None
          with ne flagged Fetched True assms show ?thesis by (simp add: analyze_try_def Let_def)
        next
          case (Some aiData)
          show ?thesis
          proof (cases "ai_content aiData")
            case (Inl e)
            with ne flagged Fetched True Some assms show ?thesis
              by (simp add: analyze_try_def Let_def)
          next
            case (Inr aiContent)
            with ne flagged Fetched True Some assms
            have "response = AssessmentsResponse 200
                    (if truthy aiContent then merge_ai_content rt (the aiContent) ?as
                     else ?as)"
              by (simp add: analyze_try_def Let_def)
            then show ?thesis
              by (simp add: response_assessments_def merge_ai_content_frame)
          qed
        qed
      qed
    qed
  qed
qed

text \<open>
  C8. Merging the parsed narrative onto the assessments changes no transaction id, score,
  tier, factor list, rule-based reason or rule summary, whatever the content is and
  whatever \<open>JSON.parse\<close> makes of it; the same holds for the assessments of every
  response of the entry point, which are those of the rule chain. An entry that matches
  an assessment (ids being pairwise distinct) puts its observation and its suggested
  action on that assessment, and nothing else.
\<close>

theorem merge_keeps_rule_based_fields:
  "map deterministic_part (merge_ai_content rt aiContent assessments)
     = map deterministic_part assessments
   \<and> map deterministic_part (merge_loop aiExplanations assessments)
     = map deterministic_part assessments
   \<and> (response_assessments (analyze_handler rt batch fetched) = Some returned
        \<longrightarrow> map deterministic_part returned
             = map deterministic_part (map (make_assessment rt batch) batch))
   \<and> (explanation \<noteq> JNull \<and> distinct (map a_transaction_id assessments)
        \<and> a \<in> set assessments \<and> matches explanation a
        \<longrightarrow> a\<lparr> audit_observation := get_prop explanation ''audit_observation'',
                suggested_action := get_prop explanation ''suggested_action'' \<rparr>
              \<in> set (merge_loop [explanation] assessments))"
proof -
  have third: "map deterministic_part returned
             = map deterministic_part (map (make_assessment rt batch) batch)"
    if r: "response_assessments (analyze_handler rt batch fetched) = Some returned"
  proof (cases "analyze_try rt batch fetched")
    case (Inl e)
    with r show ?thesis by (simp add: analyze_handler_def response_assessments_def)
  next
    case (Inr response)
    then have "analyze_handler rt batch fetched = response"
      by (simp add: analyze_handler_def)
    with analyze_try_assessments [OF Inr] r show ?thesis by auto
  qed
  have fourth: "a\<lparr> audit_observation := get_prop explanation ''audit_observation'',
                   suggested_action := get_prop explanation ''suggested_action'' \<rparr>
              \<in> set (merge_loop [explanation] assessments)"
    if h: "explanation \<noteq> JNull \<and> distinct (map a_transaction_id assessments)
        \<and> a \<in> set assessments \<and> matches explanation a"
  proof -
    have "\<forall>b \<in> set assessments. matches explanation b \<longrightarrow> b = a"
    proof (intro ballI impI)
      fix b assume "b \<in> set assessments" "matches explanation b"
      with h have "a_transaction_id b = a_transaction_id a" by (simp add: matches_def)
      with h \<open>b \<in> set assessments\<close> show "b = a" by (meson distinct_map inj_onD)
    qed
    with h have "assign_advisory explanation a
                   \<in> set (assign_first (matches explanation) (assign_advisory explanation) assessments)"
      by (intro assign_first_hits) simp_all
    with h show ?thesis by (simp add: assign_advisory_def)
  qed
  from third fourth show ?thesis
    by (simp add: merge_ai_content_frame merge_loop_frame)
qed

theorem merge_keeps_rule_based_fields_witness:
  "response_assessments (analyze_handler sample_rt [freq_a, freq_b] (Fetched response_200))
     = Some (merge_loop (case sample_list of JArr es \<Rightarrow> es)
               (map (make_assessment sample_rt [freq_a, freq_b]) [freq_a, freq_b]))
   \<and> map risk_reason
       (merge_loop (case sample_list of JArr es \<Rightarrow> es)
          (map (make_assessment sample_rt [freq_a, freq_b]) [freq_a, freq_b]))
     = [''Rule 4 triggered: 2 payments to same vendor on same date'',
        ''Rule 4 triggered: 2 payments to same vendor on same date'']
   \<and> map audit_observation
       (merge_loop (case sample_list of JArr es \<Rightarrow> es)
          (map (make_assessment sample_rt [freq_a, freq_b]) [freq_a, freq_b]))
     = [Some (JStr ''Two payments to Stark on 2024-03-06.''), None]"
proof -
  let ?as = "map (make_assessment sample_rt [freq_a, freq_b]) [freq_a, freq_b]"
  let ?es = "case sample_list of JArr es \<Rightarrow> es"
  have r: "response_assessments
             (analyze_handler sample_rt [freq_a, freq_b] (Fetched response_200))
           = Some (merge_loop ?es ?as)"
    by code_simp
  have before: "map risk_reason ?as
     = [''Rule 4 triggered: 2 payments to same vendor on same date'',
        ''Rule 4 triggered: 2 payments to same vendor on same date'']"
    by code_simp
  have obs: "map audit_observation (merge_loop ?es ?as)
     = [Some (JStr ''Two payments to Stark on 2024-03-06.''), None]"
    by code_simp
  from r merge_keeps_rule_based_fields
         [of sample_rt JNull ?as ?es "[freq_a, freq_b]" "Fetched response_200"
             "merge_loop ?es ?as"]
  have "map deterministic_part (merge_loop ?es ?as) = map deterministic_part ?as" by blast
  then have "map (\<lambda>x. fst (snd (snd (snd (snd x))))) (map deterministic_part (merge_loop ?es ?as))
           = map (\<lambda>x. fst (snd (snd (snd (snd x))))) (map deterministic_part ?as)"
    by (rule arg_cong)
  then have "map risk_reason (merge_loop ?es ?as) = map risk_reason ?as"
    by (simp add: deterministic_part_def comp_def)
  with before r obs show ?thesis by simp
qed


section \<open>Properties of the entry points when something fails\<close>

lemma safeMessage_runtime:
  "safeMessage safe generic TypeError = generic" "safeMessage safe generic SyntaxError = generic"
  by (simp_all add: safeMessage_def)

lemma safeMessage_session_missing:
  "safeMessage [''Session ID is required'', ''Session not found or access denied'']
     ''Report generation failed. Please try again.'' (Error ''Session not found or access denied'')
   = ''Session not found or access denied''"
  by code_simp

text \<open>
  C7 does not hold of the analysis entry point. The entry point means to answer with the
  assessments of the rule chain when the narrative fails: it does so on a failure status,
  and the \<open>try\<close> block around the merge does so for a content that cannot be merged. But
  the request itself and the reading of the response body as JSON are outside that
  block. When a transaction of the batch is flagged and the request is rejected, or is
  answered with a success status and a body that \<open>JSON.parse\<close> rejects or that is \<open>null\<close>,
  the \<open>catch\<close> block of the entry point answers with status 500 and its generic message,
  and the answer carries no assessments.
\<close>

theorem narrative_body_failure_loses_assessments:
  assumes t: "t \<in> set batch"
    and flagged: "level (evaluate rt batch t) \<noteq> low"
    and failure: "fetched = FetchFailed
                  \<or> (\<exists>r. fetched = Fetched r \<and> ok r
                          \<and> (JSON_parse rt (body_text r) = None
                             \<or> JSON_parse rt (body_text r) = Some JNull))"
  shows "analyze_handler rt batch fetched = AnalyzeError 500 ''Analysis failed. Please try again.''
       \<and> response_assessments (analyze_handler rt batch fetched) = None"
proof -
  let ?as = "map (make_assessment rt batch) batch"
  have ne: "batch \<noteq> []" using t by auto
  have "risk_level (make_assessment rt batch t) \<noteq> low"
    using flagged by (simp add: make_assessment_def evaluate_def Let_def)
  with t have "make_assessment rt batch t \<in> set (filter (\<lambda>a. risk_level a \<noteq> low) ?as)"
    by simp
  then have fl: "filter (\<lambda>a. risk_level a \<noteq> low) ?as \<noteq> []" by (metis empty_iff empty_set)
  have "\<exists>e. analyze_try rt batch fetched = Inl e \<and> (e = TypeError \<or> e = SyntaxError)"
  proof (cases fetched)
    case FetchFailed
    with ne fl show ?thesis by (simp add: analyze_try_def Let_def)
  next
    case (Fetched r)
    with failure have r: "ok r"
      and b: "JSON_parse rt (body_text r) = None \<or> JSON_parse rt (body_text r) = Some JNull"
      by simp_all
    from b show ?thesis
    proof
      assume "JSON_parse rt (body_text r) = None"
      with ne fl Fetched r show ?thesis by (simp add: analyze_try_def Let_def)
    next
      assume "JSON_parse rt (body_text r) = Some JNull"
      with ne fl Fetched r show ?thesis by (simp add: analyze_try_def Let_def ai_content_def)
    qed
  qed
  then have "analyze_handler rt batch fetched = AnalyzeError 500 ''Analysis failed. Please try again.''"
    by (auto simp: analyze_handler_def safeMessage_runtime)
  then show ?thesis by (simp add: response_assessments_def)
qed

theorem narrative_body_failure_loses_assessments_witness:
  "freq_a \<in> set [freq_a, freq_b]
   \<and> level (evaluate sample_rt [freq_a, freq_b] freq_a) = medium
   \<and> ok response_200_page
   \<and> JSON_parse sample_rt (body_text response_200_page) = None
   \<and> analyze_handler sample_rt [freq_a, freq_b] (Fetched response_200_page)
       = AnalyzeError 500 ''Analysis failed. Please try again.''
   \<and> response_assessments (analyze_handler sample_rt [freq_a, freq_b] (Fetched response_200_page))
       = None
   \<and> JSON_parse sample_rt (body_text response_200_null) = Some JNull
   \<and> response_assessments (analyze_handler sample_rt [freq_a, freq_b] (Fetched response_200_null))
       = None
   \<and> response_assessments (analyze_handler sample_rt [freq_a, freq_b] FetchFailed) = None
   \<and> response_assessments (analyze_handler sample_rt [freq_a, freq_b] (Fetched response_503))
       = Some (map (make_assessment sample_rt [freq_a, freq_b]) [freq_a, freq_b])"
proof -
  have h1: "freq_a \<in> set [freq_a, freq_b]" by simp
  have l: "level (evaluate sample_rt [freq_a, freq_b] freq_a) = medium" by code_simp
  then have h2: "level (evaluate sample_rt [freq_a, freq_b] freq_a) \<noteq> low" by simp
  have k: "ok response_200_page" "ok response_200_null" by code_simp+
  have p: "JSON_parse sample_rt (body_text response_200_page) = None" by code_simp
  have q: "JSON_parse sample_rt (body_text response_200_null) = Some JNull" by code_simp
  have s: "response_assessments (analyze_handler sample_rt [freq_a, freq_b] (Fetched response_503))
             = Some (map (make_assessment sample_rt [freq_a, freq_b]) [freq_a, freq_b])"
    by code_simp
  have a: "analyze_handler sample_rt [freq_a, freq_b] (Fetched response_200_page)
             = AnalyzeError 500 ''Analysis failed. Please try again.''
         \<and> response_assessments (analyze_handler sample_rt [freq_a, freq_b] (Fetched response_200_page))
             = None"
    using k(1) p by (intro narrative_body_failure_loses_assessments [OF h1 h2]) simp
  have b: "response_assessments (analyze_handler sample_rt [freq_a, freq_b] (Fetched response_200_null))
             = None"
    using narrative_body_failure_loses_assessments
            [OF h1 h2, of "Fetched response_200_null"] k(2) q by blast
  have c: "response_assessments (analyze_handler sample_rt [freq_a, freq_b] FetchFailed) = None"
    using narrative_body_failure_loses_assessments [OF h1 h2, of FetchFailed] by blast
  from h1 l k(1) p a q b c s show ?thesis by (simp add: response_assessments_def)
qed

text \<open>
  C9, as the code has it. When the session id of a report request is not empty and no
  session with that id belongs to the caller (there is none, or it is another caller's),
  the answer has status 500 and the message "Session not found or access denied", word
  for word; no request goes to the narrative generator and no table changes.
\<close>

theorem session_not_found:
  assumes "sessionId \<noteq> []"
    and "\<forall>s \<in> set (analysis_sessions w). s_id s = sessionId \<longrightarrow> s_user_id s \<noteq> userId"
  shows "generate_handler rt faults fetched userId sessionId w
           = (ReportError 500 ''Session not found or access denied'', w)"
proof -
  from assms(2)
  have "filter (\<lambda>s. s_id s = sessionId \<and> s_user_id s = userId) (analysis_sessions w) = []"
    by (auto simp: filter_empty_conv)
  then have "find_session w sessionId userId = None" by (simp add: find_session_def)
  with assms(1) have "generate_try rt faults fetched userId sessionId w
                        = (Inl (Error ''Session not found or access denied''), w)"
    by (simp add: generate_try_def)
  then show ?thesis
    by (simp only: generate_handler_def safeMessage_session_missing prod.case sum.case)
qed

theorem session_not_found_witness:
  "''s1'' \<noteq> []
   \<and> list_all (\<lambda>s. s_id s = ''s1'' \<longrightarrow> s_user_id s \<noteq> ''bob'') (analysis_sessions sample_world)
   \<and> (\<exists>s \<in> set (analysis_sessions sample_world). s_id s = ''s1'')
   \<and> generate_handler sample_rt no_faults (Fetched response_200) ''bob'' ''s1'' sample_world
       = (ReportError 500 ''Session not found or access denied'', sample_world)"
proof -
  have h1: "''s1'' \<noteq> []" by simp
  have h2: "\<forall>s \<in> set (analysis_sessions sample_world). s_id s = ''s1'' \<longrightarrow> s_user_id s \<noteq> ''bob''"
    by (simp add: sample_world_def)
  have h3: "\<exists>s \<in> set (analysis_sessions sample_world). s_id s = ''s1''"
    by (simp add: sample_world_def)
  from session_not_found [OF h1 h2, of sample_rt no_faults "Fetched response_200"] h2 h3
  show ?thesis by (simp add: list_all_iff)
qed

text \<open>
  C9, as the claim is worded, asks for a 404-equivalent status. The answer to a request
  for a session that does not exist has status 500, like every other failure that the
  entry point catches.
\<close>

theorem session_not_found_status_counterexample:
  "find_session sample_world ''s404'' ''alice'' = None
   \<and> fst (generate_handler sample_rt no_faults (Fetched response_200) ''alice'' ''s404'' sample_world)
       = ReportError 500 ''Session not found or access denied''
   \<and> fst (generate_handler sample_rt no_faults (Fetched response_200) ''alice'' ''s404'' sample_world)
       \<noteq> ReportError 404 ''Session not found or access denied''"
  by code_simp

end
